theory Spec2Isabelle
  imports Main
begin

section \<open>Python values used by the model\<close>

text \<open>
  A Python \<open>str\<close> is modelled as a \<^typ>\<open>string\<close> whose characters are the code points
  U+0000 .. U+00FF. \<open>str.lower()\<close> maps every such code point to one code point of the
  same range: \<open>A-Z\<close>, U+00C0 .. U+00D6 and U+00D8 .. U+00DE move up by 32, all others stay.
\<close>

definition lower_char :: "char \<Rightarrow> char" where
  "lower_char c =
     (let n = (of_char c :: nat)
      in if (65 \<le> n \<and> n \<le> 90) \<or> (192 \<le> n \<and> n \<le> 214) \<or> (216 \<le> n \<and> n \<le> 222)
         then char_of (n + 32) else c)"

definition str_lower :: "string \<Rightarrow> string" where
  "str_lower s = map lower_char s"

text \<open>
  \<open>str.upper()\<close> uses the full case mapping: \<open>a-z\<close>, U+00E0 .. U+00F6 and U+00F8 .. U+00FE
  move down by 32, U+00DF (sharp s) becomes the two letters \<open>SS\<close>, and the upper case of
  U+00B5 and of U+00FF lies beyond U+00FF, where this model has no character: \<open>None\<close>.
\<close>

definition upper_char :: "char \<Rightarrow> string option" where
  "upper_char c =
     (let n = (of_char c :: nat)
      in if (97 \<le> n \<and> n \<le> 122) \<or> (224 \<le> n \<and> n \<le> 246) \<or> (248 \<le> n \<and> n \<le> 254)
         then Some [char_of (n - 32)]
         else if n = 223 then Some ''SS''
         else if n = 181 \<or> n = 255 then None
         else Some [c])"

fun str_upper :: "string \<Rightarrow> string option" where
  "str_upper [] = Some []"
| "str_upper (c # cs) =
     (case upper_char c of
        None \<Rightarrow> None
      | Some u \<Rightarrow> (case str_upper cs of None \<Rightarrow> None | Some us \<Rightarrow> Some (u @ us)))"

definition is_ascii :: "string \<Rightarrow> bool" where
  "is_ascii s = list_all (\<lambda>c. (of_char c :: nat) < 128) s"

text \<open>The exceptions the modelled code can raise, and the outcome of a call.\<close>

datatype exn = IndexError | ValueError | KeyError | TypeError | NameError
  | AttributeError | StopIteration | OverflowError

datatype 'a outcome = Returns 'a | Raises exn

section \<open>\<open>base.py\<close>: DeadlineItem\<close>

text \<open>
  The classes of the hierarchy: \<open>Slave\<close>, \<open>Pool\<close> and \<open>Group\<close> derive from \<open>DeadlineItem\<close>.
\<close>

datatype cls = DeadlineItemT | SlaveT | PoolT | GroupT

fun cls_name :: "cls \<Rightarrow> string" where
  "cls_name DeadlineItemT = ''DeadlineItem''"
| "cls_name SlaveT = ''Slave''"
| "cls_name PoolT = ''Pool''"
| "cls_name GroupT = ''Group''"

record item =
  cls :: cls
  name :: string

text \<open>A value handed to the constructor or compared with: an item or a plain string.\<close>

datatype arg = AItem item | AStr string

text \<open>\<open>str(value)\<close>: \<open>DeadlineItem.__str__\<close> returns the name.\<close>

fun str_of :: "arg \<Rightarrow> string" where
  "str_of (AItem i) = name i"
| "str_of (AStr s) = s"

text \<open>
  \<open>item_type(x)\<close>, that is \<open>DeadlineItem.__init__\<close>: an item passes its name on, a
  string is the name. The subclasses' constructors also read their instance caches from
  the class-level tables; the entity sections below model that where it is observed.
\<close>

definition new_item :: "cls \<Rightarrow> arg \<Rightarrow> item" where
  "new_item t x = \<lparr>cls = t, name = (case x of AItem i \<Rightarrow> name i | AStr s \<Rightarrow> s)\<rparr>"

text \<open>\<open>isinstance(value, type(self))\<close> for an item \<open>value\<close>.\<close>

definition isinstance :: "item \<Rightarrow> cls \<Rightarrow> bool" where
  "isinstance v t = (cls v = t \<or> t = DeadlineItemT)"

fun DeadlineItem_eq :: "item \<Rightarrow> arg \<Rightarrow> bool" where
  "DeadlineItem_eq self (AItem v) =
     (if isinstance v (cls self) then str_lower (name self) = str_lower (name v)
      else str_lower (name self) = str_lower (str_of (AItem v)))"
| "DeadlineItem_eq self (AStr s) = (str_lower (name self) = str_lower s)"

text \<open>
  \<open>__repr__\<close> and \<open>__hash__\<close>. The interpreter's \<open>repr\<close> of a string and its string hash
  are parameters \<open>r\<close> and \<open>h\<close>.
\<close>

definition DeadlineItem_repr :: "(string \<Rightarrow> string) \<Rightarrow> item \<Rightarrow> string" where
  "DeadlineItem_repr r self = cls_name (cls self) @ ''('' @ r (str_lower (name self)) @ '')''"

definition DeadlineItem_hash :: "(string \<Rightarrow> string) \<Rightarrow> (string \<Rightarrow> int) \<Rightarrow> item \<Rightarrow> int" where
  "DeadlineItem_hash r h self = h (DeadlineItem_repr r self)"

section \<open>The interpreter's list operations\<close>

text \<open>
  The interpreter is CPython on a 64-bit platform. A list method that takes an index
  (\<open>pop\<close>, \<open>insert\<close>) first converts the Python integer to a machine integer of 64
  bits and raises \<open>OverflowError\<close> when it does not fit. Subscripting with an integer
  that does not fit raises \<open>IndexError\<close>, as any index out of range does, and the
  bounds of a slice are clipped to the machine range, which selects the same positions
  as the unclipped bounds in every list that fits in memory.
\<close>

definition fits_ssize_t :: "int \<Rightarrow> bool" where
  "fits_ssize_t i = (- (2 ^ 63) \<le> i \<and> i < 2 ^ 63)"

text \<open>An integer index counts from the end when negative; out of range it is \<open>None\<close>.\<close>

definition norm_index :: "nat \<Rightarrow> int \<Rightarrow> nat option" where
  "norm_index n i =
     (let j = (if i < 0 then i + int n else i)
      in if 0 \<le> j \<and> j < int n then Some (nat j) else None)"

text \<open>\<open>slice(start, stop, step)\<close>, each bound possibly \<open>None\<close>.\<close>

datatype slice = Slice "int option" "int option" "int option"

text \<open>Clipping of one bound of a slice to a list of length \<open>n\<close> for a given step.\<close>

definition clip_bound :: "nat \<Rightarrow> int \<Rightarrow> int \<Rightarrow> int" where
  "clip_bound n step v =
     (if v < 0 then (if v + int n < 0 then (if step < 0 then - 1 else 0) else v + int n)
      else if v \<ge> int n then (if step < 0 then int n - 1 else int n)
      else v)"

text \<open>
  The adjusted \<open>(start, stop, step, slicelength)\<close> of a slice on a list of length \<open>n\<close>;
  a zero step raises \<open>ValueError\<close>.
\<close>

fun slice_adjust :: "nat \<Rightarrow> slice \<Rightarrow> (int \<times> int \<times> int \<times> nat) outcome" where
  "slice_adjust n (Slice lo hi st) =
     (let step = (case st of None \<Rightarrow> 1 | Some s \<Rightarrow> s)
      in if step = 0 then Raises ValueError
         else
           let start = (case lo of None \<Rightarrow> (if step < 0 then int n - 1 else 0)
                                 | Some v \<Rightarrow> clip_bound n step v);
               stop = (case hi of None \<Rightarrow> (if step < 0 then - 1 else int n)
                                | Some v \<Rightarrow> clip_bound n step v);
               len = (if step < 0
                      then (if stop < start then nat ((start - stop - 1) div (- step) + 1) else 0)
                      else (if start < stop then nat ((stop - start - 1) div step + 1) else 0))
           in Returns (start, stop, step, len))"

text \<open>The positions \<open>start, start + step, ...\<close> an extended slice of that length selects.\<close>

definition slice_positions :: "int \<Rightarrow> int \<Rightarrow> nat \<Rightarrow> nat list" where
  "slice_positions start step len = map (\<lambda>k. nat (start + int k * step)) [0..<len]"

text \<open>\<open>xs[i] = v\<close>, \<open>del xs[i]\<close>, \<open>xs.pop(i)\<close> and \<open>xs.insert(i, v)\<close> for an integer \<open>i\<close>.\<close>

definition list_set_index :: "'a list \<Rightarrow> int \<Rightarrow> 'a \<Rightarrow> 'a list outcome" where
  "list_set_index xs i v =
     (case norm_index (length xs) i of
        None \<Rightarrow> Raises IndexError
      | Some k \<Rightarrow> Returns (xs[k := v]))"

definition list_del_index :: "'a list \<Rightarrow> int \<Rightarrow> 'a list outcome" where
  "list_del_index xs i =
     (case norm_index (length xs) i of
        None \<Rightarrow> Raises IndexError
      | Some k \<Rightarrow> Returns (take k xs @ drop (Suc k) xs))"

definition list_pop :: "'a list \<Rightarrow> int \<Rightarrow> ('a \<times> 'a list) outcome" where
  "list_pop xs i =
     (if \<not> fits_ssize_t i then Raises OverflowError
      else case norm_index (length xs) i of
             None \<Rightarrow> Raises IndexError
           | Some k \<Rightarrow> Returns (xs ! k, take k xs @ drop (Suc k) xs))"

text \<open>
  \<open>xs.insert(i, v)\<close> never complains about the position: a negative index counts from
  the end, and what then lies before the start or beyond the end is moved to it.
\<close>

definition list_insert :: "'a list \<Rightarrow> int \<Rightarrow> 'a \<Rightarrow> 'a list outcome" where
  "list_insert xs i v =
     (if \<not> fits_ssize_t i then Raises OverflowError
      else
        let n = int (length xs);
            j = (if i < 0 then (if i + n < 0 then 0 else i + n) else if i > n then n else i)
        in Returns (take (nat j) xs @ [v] @ drop (nat j) xs))"

text \<open>
  \<open>xs[slice] = vs\<close>. With step 1 the range is replaced by \<open>vs\<close> whatever its length;
  with any other step the lengths must agree (\<open>ValueError\<close> otherwise) and the selected
  positions are overwritten one by one.
\<close>

definition list_set_slice :: "'a list \<Rightarrow> slice \<Rightarrow> 'a list \<Rightarrow> 'a list outcome" where
  "list_set_slice xs sl vs =
     (case slice_adjust (length xs) sl of
        Raises e \<Rightarrow> Raises e
      | Returns (start, stop, step, len) \<Rightarrow>
          if step = 1
          then Returns (take (nat start) xs @ vs @ drop (nat (max start stop)) xs)
          else if length vs \<noteq> len then Raises ValueError
          else Returns (fold (\<lambda>(p, v) acc. acc[p := v]) (zip (slice_positions start step len) vs) xs))"

text \<open>\<open>del xs[slice]\<close>: the selected positions are removed.\<close>

definition list_del_slice :: "'a list \<Rightarrow> slice \<Rightarrow> 'a list outcome" where
  "list_del_slice xs sl =
     (case slice_adjust (length xs) sl of
        Raises e \<Rightarrow> Raises e
      | Returns (start, stop, step, len) \<Rightarrow>
          if step = 1
          then Returns (take (nat start) xs @ drop (nat (max start stop)) xs)
          else Returns (map fst (filter (\<lambda>(x, p). p \<notin> set (slice_positions start step len))
                                         (zip xs [0..<length xs]))))"

text \<open>
  \<open>xs.remove(v)\<close>: the first element \<open>e\<close> with \<open>e == v\<close> is removed; \<open>ValueError\<close>
  when there is none. \<open>eq e\<close> is the element's \<open>__eq__\<close> applied to \<open>v\<close>.
\<close>

fun list_remove :: "('a \<Rightarrow> bool) \<Rightarrow> 'a list \<Rightarrow> 'a list outcome" where
  "list_remove eq [] = Raises ValueError"
| "list_remove eq (e # es) =
     (if eq e then Returns es
      else (case list_remove eq es of Raises x \<Rightarrow> Raises x | Returns es' \<Rightarrow> Returns (e # es')))"

text \<open>\<open>xs.index(v)\<close>: the position of the first such element.\<close>

fun list_index :: "('a \<Rightarrow> bool) \<Rightarrow> 'a list \<Rightarrow> nat outcome" where
  "list_index eq [] = Raises ValueError"
| "list_index eq (e # es) =
     (if eq e then Returns 0
      else (case list_index eq es of Raises x \<Rightarrow> Raises x | Returns k \<Rightarrow> Returns (Suc k)))"

section \<open>\<open>base.py\<close>: DeadlineList\<close>

text \<open>
  The list proxy: its element class, the entity it belongs to and the elements. The
  type of the owner is left open; the subclasses fix it.
\<close>

record 'src dlist =
  item_type :: cls
  source :: 'src
  items :: "item list"

definition DeadlineList_init :: "cls \<Rightarrow> 'src \<Rightarrow> arg list \<Rightarrow> 'src dlist" where
  "DeadlineList_init t src xs = \<lparr>item_type = t, source = src, items = map (new_item t) xs\<rparr>"

text \<open>
  The three overridable methods \<open>trigger_add\<close>, \<open>trigger_remove\<close> and \<open>trigger_set\<close>.
  Each takes the proxy, its argument and the state of everything outside the proxy
  (\<open>'w\<close>), and returns normally or raises, with the proxy and the outside state as it
  leaves them.
\<close>

record ('src, 'w) hooks =
  trigger_add :: "'src dlist \<Rightarrow> item \<Rightarrow> 'w \<Rightarrow> unit outcome \<times> 'src dlist \<times> 'w"
  trigger_remove :: "'src dlist \<Rightarrow> arg \<Rightarrow> 'w \<Rightarrow> unit outcome \<times> 'src dlist \<times> 'w"
  trigger_set :: "'src dlist \<Rightarrow> item list \<Rightarrow> 'w \<Rightarrow> unit outcome \<times> 'src dlist \<times> 'w"

text \<open>
  The two forms of \<open>__setitem__\<close> and \<open>__delitem__\<close> the annotations admit: one element
  at an integer index, or a list of elements at a slice.
\<close>

datatype assignment = SetIndex int arg | SetSlice slice "arg list"

datatype deletion = DelIndex int | DelSlice slice

definition DeadlineList_setitem ::
  "('src, 'w) hooks \<Rightarrow> 'src dlist \<Rightarrow> assignment \<Rightarrow> 'w \<Rightarrow> unit outcome \<times> 'src dlist \<times> 'w" where
  "DeadlineList_setitem h self a w =
     (let items_old = items self in
      case (case a of
              SetSlice sl child \<Rightarrow> list_set_slice (items self) sl (map (new_item (item_type self)) child)
            | SetIndex i child \<Rightarrow> list_set_index (items self) i (new_item (item_type self) child)) of
        Raises e \<Rightarrow> (Raises e, self, w)
      | Returns xs \<Rightarrow> trigger_set h (self\<lparr>items := xs\<rparr>) items_old w)"

definition DeadlineList_delitem ::
  "('src, 'w) hooks \<Rightarrow> 'src dlist \<Rightarrow> deletion \<Rightarrow> 'w \<Rightarrow> unit outcome \<times> 'src dlist \<times> 'w" where
  "DeadlineList_delitem h self d w =
     (let items_old = items self in
      case (case d of
              DelSlice sl \<Rightarrow> list_del_slice (items self) sl
            | DelIndex i \<Rightarrow> list_del_index (items self) i) of
        Raises e \<Rightarrow> (Raises e, self, w)
      | Returns xs \<Rightarrow> trigger_set h (self\<lparr>items := xs\<rparr>) items_old w)"

definition DeadlineList_append ::
  "('src, 'w) hooks \<Rightarrow> 'src dlist \<Rightarrow> arg \<Rightarrow> 'w \<Rightarrow> unit outcome \<times> 'src dlist \<times> 'w" where
  "DeadlineList_append h self x w =
     (let item = new_item (item_type self) x
      in trigger_add h (self\<lparr>items := items self @ [item]\<rparr>) item w)"

definition DeadlineList_insert ::
  "('src, 'w) hooks \<Rightarrow> 'src dlist \<Rightarrow> int \<Rightarrow> arg \<Rightarrow> 'w \<Rightarrow> unit outcome \<times> 'src dlist \<times> 'w" where
  "DeadlineList_insert h self i x w =
     (let items_old = items self in
      case list_insert (items self) i (new_item (item_type self) x) of
        Raises e \<Rightarrow> (Raises e, self, w)
      | Returns xs \<Rightarrow> trigger_set h (self\<lparr>items := xs\<rparr>) items_old w)"

definition DeadlineList_remove ::
  "('src, 'w) hooks \<Rightarrow> 'src dlist \<Rightarrow> arg \<Rightarrow> 'w \<Rightarrow> unit outcome \<times> 'src dlist \<times> 'w" where
  "DeadlineList_remove h self x w =
     (case list_remove (\<lambda>e. DeadlineItem_eq e (AItem (new_item (item_type self) x))) (items self) of
        Raises e \<Rightarrow> (Raises e, self, w)
      | Returns xs \<Rightarrow> trigger_remove h (self\<lparr>items := xs\<rparr>) x w)"

definition DeadlineList_pop ::
  "('src, 'w) hooks \<Rightarrow> 'src dlist \<Rightarrow> int \<Rightarrow> 'w \<Rightarrow> item outcome \<times> 'src dlist \<times> 'w" where
  "DeadlineList_pop h self i w =
     (let items_old = items self in
      case list_pop (items self) i of
        Raises e \<Rightarrow> (Raises e, self, w)
      | Returns (item, xs) \<Rightarrow>
          (case trigger_set h (self\<lparr>items := xs\<rparr>) items_old w of
             (Raises e, self', w') \<Rightarrow> (Raises e, self', w')
           | (Returns _, self', w') \<Rightarrow> (Returns item, self', w')))"

definition DeadlineList_index :: "'src dlist \<Rightarrow> arg \<Rightarrow> nat outcome" where
  "DeadlineList_index self x =
     list_index (\<lambda>e. DeadlineItem_eq e (AItem (new_item (item_type self) x))) (items self)"

text \<open>
  DeadlineList's own three methods only write a log line: they return at once and change
  nothing.
\<close>

definition DeadlineList_hooks :: "('src, 'w) hooks" where
  "DeadlineList_hooks =
     \<lparr>trigger_add = (\<lambda>self item w. (Returns (), self, w)),
      trigger_remove = (\<lambda>self x w. (Returns (), self, w)),
      trigger_set = (\<lambda>self previous w. (Returns (), self, w))\<rparr>"

text \<open>
  To observe which of the three methods a proxy runs and with what argument, any
  implementation \<open>h\<close> of them is wrapped: next to the outside state the wrapped methods
  keep the list of the calls made so far, and otherwise do what \<open>h\<close> does.
\<close>

datatype hook_call = Trigger_add item | Trigger_remove arg | Trigger_set "item list"

definition recording :: "('src, 'w) hooks \<Rightarrow> ('src, 'w \<times> hook_call list) hooks" where
  "recording h =
     \<lparr>trigger_add = (\<lambda>self item (w, tr).
        case trigger_add h self item w of
          (r, self', w') \<Rightarrow> (r, self', (w', tr @ [Trigger_add item]))),
      trigger_remove = (\<lambda>self x (w, tr).
        case trigger_remove h self x w of
          (r, self', w') \<Rightarrow> (r, self', (w', tr @ [Trigger_remove x]))),
      trigger_set = (\<lambda>self previous (w, tr).
        case trigger_set h self previous w of
          (r, self', w') \<Rightarrow> (r, self', (w', tr @ [Trigger_set previous])))\<rparr>"

text \<open>A proxy of pools with the given names and no owner to speak of: a concrete input.\<close>

definition pool_proxy :: "string list \<Rightarrow> unit dlist" where
  "pool_proxy names = DeadlineList_init PoolT () (map AStr names)"

section \<open>\<open>core/symbol.py\<close>, \<open>utils.py\<close>: the unset marker and the remote client\<close>

text \<open>A cache cell is either the marker \<open>NOT_SET\<close> or holds a fetched value.\<close>

datatype 'a cell = NOT_SET | Cached 'a

text \<open>
  The values the remote service sends and the code stores: \<open>None\<close>, booleans,
  integers and strings, and dictionaries of such values with string keys.
\<close>

datatype scalar = PNone | PBool bool | PInt int | PStr string

datatype jval = Leaf scalar | Dict "(string \<times> jval) list"

text \<open>
  \<open>a == b\<close> on scalars: a boolean is the integer 0 or 1, every other pair of
  different kinds is unequal.
\<close>

fun scalar_eq :: "scalar \<Rightarrow> scalar \<Rightarrow> bool" where
  "scalar_eq PNone PNone = True"
| "scalar_eq (PBool a) (PBool b) = (a = b)"
| "scalar_eq (PBool a) (PInt i) = ((if a then 1 else 0) = i)"
| "scalar_eq (PInt i) (PBool b) = (i = (if b then 1 else 0))"
| "scalar_eq (PInt i) (PInt j) = (i = j)"
| "scalar_eq (PStr s) (PStr t) = (s = t)"
| "scalar_eq _ _ = False"

text \<open>Truth value of a fetched value, as \<open>x or None\<close> tests it.\<close>

fun truthy :: "jval \<Rightarrow> bool" where
  "truthy (Leaf PNone) = False"
| "truthy (Leaf (PBool b)) = b"
| "truthy (Leaf (PInt i)) = (i \<noteq> 0)"
| "truthy (Leaf (PStr s)) = (s \<noteq> [])"
| "truthy (Dict d) = (d \<noteq> [])"

text \<open>
  A dictionary keeps its keys in insertion order; \<open>d[k] = v\<close> overwrites in place or
  appends.
\<close>

fun dict_set :: "(string \<times> 'v) list \<Rightarrow> string \<Rightarrow> 'v \<Rightarrow> (string \<times> 'v) list" where
  "dict_set [] k v = [(k, v)]"
| "dict_set ((k', v') # d) k v = (if k' = k then (k, v) # d else (k', v') # dict_set d k v)"

text \<open>
  The settings of a slave are changed in place through references to nested
  dictionaries, so they live in a store of dictionary objects: an address is a position
  in the store, and a stored value is a scalar or the address of a dictionary.
\<close>

datatype hval = HLeaf scalar | HRef nat

type_synonym heap = "(string \<times> hval) list list"

definition heap_get :: "heap \<Rightarrow> nat \<Rightarrow> (string \<times> hval) list option" where
  "heap_get h a = (if a < length h then Some (h ! a) else None)"

text \<open>Storing a fetched value: every dictionary becomes a new object.\<close>

fun alloc :: "jval \<Rightarrow> heap \<Rightarrow> hval \<times> heap"
  and alloc_dict :: "(string \<times> jval) list \<Rightarrow> heap \<Rightarrow> (string \<times> hval) list \<times> heap" where
  "alloc (Leaf s) h = (HLeaf s, h)"
| "alloc (Dict d) h = (case alloc_dict d h of (d', h') \<Rightarrow> (HRef (length h'), h' @ [d']))"
| "alloc_dict [] h = ([], h)"
| "alloc_dict ((k, v) # d) h =
     (case alloc v h of (v', h') \<Rightarrow>
        (case alloc_dict d h' of (d', h'') \<Rightarrow> ((k, v') # d', h'')))"

fun alloc_list :: "jval list \<Rightarrow> heap \<Rightarrow> hval list \<times> heap" where
  "alloc_list [] h = ([], h)"
| "alloc_list (v # vs) h =
     (case alloc v h of (v', h') \<Rightarrow>
        (case alloc_list vs h' of (vs', h'') \<Rightarrow> (v' # vs', h'')))"

text \<open>
  The remote calls the code makes, as they are recorded. \<open>SetGroupsForSlave\<close> is called
  with one name or a list of names on either side.
\<close>

datatype names = OneName string | NameList "string list"

datatype call =
    GetSlaveNames | GetSlaveInfo string | GetSlaveSettings string | SaveSlaveSettings hval
  | SetGroupsForSlave names names | GetSlaveNamesInGroup string | GetSlaveNamesInPool string
  | AddGroupToSlave string string | RemoveGroupFromSlave string string
  | GetPoolNames | AddPool string | DeletePool string
  | GetGroupNames | AddGroup string | DeleteGroup string

text \<open>
  The remote service is not part of the program: it is a parameter, a state \<open>'r\<close> of
  its own and one function per operation that answers and moves that state. Status
  results are strings, name lists are lists of strings, and info and settings are the
  values above. \<open>SaveSlaveSettings\<close> receives the settings object as it stands in the
  store.
\<close>

record 'r api =
  Slaves_GetSlaveNames :: "'r \<Rightarrow> string list \<times> 'r"
  Slaves_GetSlaveInfo :: "string \<Rightarrow> 'r \<Rightarrow> jval \<times> 'r"
  Slaves_GetSlaveSettings :: "string \<Rightarrow> 'r \<Rightarrow> jval list \<times> 'r"
  Slaves_SaveSlaveSettings :: "heap \<Rightarrow> hval \<Rightarrow> 'r \<Rightarrow> string \<times> 'r"
  Slaves_SetGroupsForSlave :: "names \<Rightarrow> names \<Rightarrow> 'r \<Rightarrow> string \<times> 'r"
  Slaves_GetSlaveNamesInGroup :: "string \<Rightarrow> 'r \<Rightarrow> string list \<times> 'r"
  Slaves_GetSlaveNamesInPool :: "string \<Rightarrow> 'r \<Rightarrow> string list \<times> 'r"
  Slaves_AddGroupToSlave :: "string \<Rightarrow> string \<Rightarrow> 'r \<Rightarrow> string \<times> 'r"
  Slaves_RemoveGroupFromSlave :: "string \<Rightarrow> string \<Rightarrow> 'r \<Rightarrow> string \<times> 'r"
  Pools_GetPoolNames :: "'r \<Rightarrow> string list \<times> 'r"
  Pools_AddPool :: "string \<Rightarrow> 'r \<Rightarrow> string \<times> 'r"
  Pools_DeletePool :: "string \<Rightarrow> 'r \<Rightarrow> string \<times> 'r"
  Groups_GetGroupNames :: "'r \<Rightarrow> string list \<times> 'r"
  Groups_AddGroup :: "string \<Rightarrow> 'r \<Rightarrow> string \<times> 'r"
  Groups_DeleteGroup :: "string \<Rightarrow> 'r \<Rightarrow> string \<times> 'r"

text \<open>
  Everything of the process outside the object at hand: the state of the remote
  service, the remote calls made so far, the store of settings dictionaries, and the
  class-level cache attributes of \<open>Slave\<close>, \<open>Pool\<close> and \<open>Group\<close>. The per-name tables
  are \<open>defaultdict\<close>s whose default is \<open>NOT_SET\<close>.
\<close>

record 'r world =
  remote :: 'r
  calls :: "call list"
  heap :: heap
  Slave_SLAVES_CACHE :: "string list cell"
  Slave_INFO_CACHE :: "string \<Rightarrow> jval cell"
  Slave_SETTINGS_CACHE :: "string \<Rightarrow> hval list option cell"
  Pool_POOLS_CACHE :: "string list cell"
  Pool_SLAVES_CACHE :: "string \<Rightarrow> string list cell"
  Group_GROUPS_CACHE :: "string list cell"
  Group_SLAVES_CACHE :: "string \<Rightarrow> string list cell"

text \<open>
  The attributes of the client object \<open>api\<close> and the methods of the three namespaces the
  code uses, as \<open>utils.py\<close> lists them. Any other attribute raises \<open>AttributeError\<close>.
\<close>

definition api_attributes :: "string list" where
  "api_attributes =
     [''AuthenticationModeEnabled'', ''Balancer'', ''EnableAuthentication'', ''Groups'',
      ''JobReports'', ''Jobs'', ''LimitGroups'', ''MappedPaths'', ''MaximumPriority'',
      ''Plugins'', ''Pools'', ''Pulse'', ''Repository'', ''SetAuthenticationCredentials'',
      ''Slaves'', ''SlavesRenderingJob'', ''TaskReports'', ''Tasks'', ''Users'']"

definition api_methods :: "string \<Rightarrow> string list" where
  "api_methods ns =
     (if ns = ''Slaves'' then
        [''AddGroupToSlave'', ''AddPoolToSlave'', ''DeleteSlave'', ''GetSlaveHistoryEntries'',
         ''GetSlaveInfo'', ''GetSlaveInfoSettings'', ''GetSlaveInfos'', ''GetSlaveNames'',
         ''GetSlaveNamesInGroup'', ''GetSlaveNamesInPool'', ''GetSlaveReports'',
         ''GetSlaveReportsContents'', ''GetSlaveSettings'', ''GetSlavesInfoSettings'',
         ''GetSlavesSettings'', ''RemoveGroupFromSlave'', ''RemovePoolFromSlave'',
         ''SaveSlaveInfo'', ''SaveSlaveSettings'', ''SetGroupsForSlave'', ''SetPoolsForSlave'']
      else if ns = ''Pools'' then
        [''AddPool'', ''AddPools'', ''DeletePool'', ''DeletePools'', ''GetPoolNames'', ''PurgePools'']
      else if ns = ''Groups'' then
        [''AddGroup'', ''AddGroups'', ''DeleteGroup'', ''DeleteGroups'', ''GetGroupNames'',
         ''PurgeGroups'']
      else [])"

definition api_lookup :: "string \<Rightarrow> string \<Rightarrow> unit outcome" where
  "api_lookup ns m =
     (if ns \<in> set api_attributes \<and> m \<in> set (api_methods ns) then Returns ()
      else Raises AttributeError)"

text \<open>
  One remote call \<open>api.ns.m(...)\<close>: the attribute lookups, then the operation \<open>f\<close> on the
  remote state, recorded as \<open>c\<close>.
\<close>

definition invoke ::
  "string \<Rightarrow> string \<Rightarrow> call \<Rightarrow> ('r \<Rightarrow> 'a \<times> 'r) \<Rightarrow> 'r world \<Rightarrow> 'a outcome \<times> 'r world" where
  "invoke ns m c f w =
     (case api_lookup ns m of
        Raises e \<Rightarrow> (Raises e, w)
      | Returns _ \<Rightarrow>
          (case f (remote w) of
             (res, r') \<Rightarrow> (Returns res, w\<lparr>remote := r', calls := calls w @ [c]\<rparr>)))"

section \<open>\<open>pools.py\<close> and \<open>groups.py\<close>: Pool and Group\<close>

text \<open>
  \<open>next(x)\<close> needs an iterator: on one it yields the first remaining element or raises
  \<open>StopIteration\<close>; on a sequence that is not an iterator it raises \<open>TypeError\<close>.
\<close>

datatype 'a iterable = Iterator "'a list" | Sequence "'a list"

fun py_next :: "'a iterable \<Rightarrow> 'a outcome" where
  "py_next (Iterator []) = Raises StopIteration"
| "py_next (Iterator (x # xs)) = Returns x"
| "py_next (Sequence xs) = Raises TypeError"

text \<open>
  The names bound in \<open>pools.py\<close> when its functions run. The module imports \<open>Slave\<close>
  only under \<open>if TYPE_CHECKING:\<close>, which is false at run time, so it does not bind it.
  (\<open>groups.py\<close> imports \<open>GroupSlaves\<close> inside the property that uses it.)
\<close>

definition pools_globals :: "string list" where
  "pools_globals =
     [''annotations'', ''logging'', ''defaultdict'', ''Enum'', ''Any'', ''Dict'', ''Iterable'',
      ''Generator'', ''List'', ''Optional'', ''Tuple'', ''Union'', ''TYPE_CHECKING'',
      ''DeadlineItem'', ''DeadlineList'', ''NOT_SET'', ''api'', ''logger'', ''Pool'',
      ''SlavePools'']"

definition lookup_global :: "string list \<Rightarrow> string \<Rightarrow> unit outcome" where
  "lookup_global globals n = (if n \<in> set globals then Returns () else Raises NameError)"

record pool =
  pool_name :: string
  pool_slaves_cache :: "string list cell"

record group =
  group_name :: string
  group_slaves_cache :: "string list cell"

definition Pool_init :: "arg \<Rightarrow> 'r world \<Rightarrow> pool" where
  "Pool_init x w = \<lparr>pool_name = str_of x, pool_slaves_cache = Pool_SLAVES_CACHE w (str_of x)\<rparr>"

definition Group_init :: "arg \<Rightarrow> 'r world \<Rightarrow> group" where
  "Group_init x w = \<lparr>group_name = str_of x, group_slaves_cache = Group_SLAVES_CACHE w (str_of x)\<rparr>"

definition Group_item :: "group \<Rightarrow> item" where
  "Group_item g = \<lparr>cls = GroupT, name = group_name g\<rparr>"

text \<open>\<open>_all\<close>: the names of all pools or groups, fetched once into the class attribute.\<close>

definition Pool_all_names :: "'r api \<Rightarrow> 'r world \<Rightarrow> string list outcome \<times> 'r world" where
  "Pool_all_names api w =
     (case Pool_POOLS_CACHE w of
        Cached ns \<Rightarrow> (Returns ns, w)
      | NOT_SET \<Rightarrow>
          (case invoke ''Pools'' ''GetPoolNames'' GetPoolNames (Pools_GetPoolNames api) w of
             (Raises e, w') \<Rightarrow> (Raises e, w')
           | (Returns ns, w') \<Rightarrow> (Returns ns, w'\<lparr>Pool_POOLS_CACHE := Cached ns\<rparr>)))"

definition Group_all_names :: "'r api \<Rightarrow> 'r world \<Rightarrow> string list outcome \<times> 'r world" where
  "Group_all_names api w =
     (case Group_GROUPS_CACHE w of
        Cached ns \<Rightarrow> (Returns ns, w)
      | NOT_SET \<Rightarrow>
          (case invoke ''Groups'' ''GetGroupNames'' GetGroupNames (Groups_GetGroupNames api) w of
             (Raises e, w') \<Rightarrow> (Raises e, w')
           | (Returns ns, w') \<Rightarrow> (Returns ns, w'\<lparr>Group_GROUPS_CACHE := Cached ns\<rparr>)))"

text \<open>The property \<open>_slaves\<close>: the member names, fetched once into the instance.\<close>

definition Pool_slave_names ::
  "'r api \<Rightarrow> pool \<Rightarrow> 'r world \<Rightarrow> string list outcome \<times> pool \<times> 'r world" where
  "Pool_slave_names api self w =
     (case pool_slaves_cache self of
        Cached ns \<Rightarrow> (Returns ns, self, w)
      | NOT_SET \<Rightarrow>
          (case invoke ''Slaves'' ''GetSlaveNamesInPool'' (GetSlaveNamesInPool (pool_name self))
                  (Slaves_GetSlaveNamesInPool api (pool_name self)) w of
             (Raises e, w') \<Rightarrow> (Raises e, self, w')
           | (Returns ns, w') \<Rightarrow> (Returns ns, self\<lparr>pool_slaves_cache := Cached ns\<rparr>, w')))"

definition Group_slave_names ::
  "'r api \<Rightarrow> group \<Rightarrow> 'r world \<Rightarrow> string list outcome \<times> group \<times> 'r world" where
  "Group_slave_names api self w =
     (case group_slaves_cache self of
        Cached ns \<Rightarrow> (Returns ns, self, w)
      | NOT_SET \<Rightarrow>
          (case invoke ''Slaves'' ''GetSlaveNamesInGroup'' (GetSlaveNamesInGroup (group_name self))
                  (Slaves_GetSlaveNamesInGroup api (group_name self)) w of
             (Raises e, w') \<Rightarrow> (Raises e, self, w')
           | (Returns ns, w') \<Rightarrow> (Returns ns, self\<lparr>group_slaves_cache := Cached ns\<rparr>, w')))"

text \<open>
  \<open>Pool.slaves\<close> is \<open>map(Slave, self._slaves)\<close>: the name \<open>Slave\<close> is looked up before
  \<open>self._slaves\<close> is read, and the result would be an iterator.
\<close>

definition Pool_slaves ::
  "'r api \<Rightarrow> pool \<Rightarrow> 'r world \<Rightarrow> item iterable outcome \<times> pool \<times> 'r world" where
  "Pool_slaves api self w =
     (case lookup_global pools_globals ''Slave'' of
        Raises e \<Rightarrow> (Raises e, self, w)
      | Returns _ \<Rightarrow>
          (case Pool_slave_names api self w of
             (Raises e, self', w') \<Rightarrow> (Raises e, self', w')
           | (Returns ns, self', w') \<Rightarrow>
               (Returns (Iterator (map (\<lambda>n. new_item SlaveT (AStr n)) ns)), self', w')))"

text \<open>
  \<open>Group.slaves\<close> is \<open>GroupSlaves(self, self._slaves)\<close>: a list proxy of slaves owned by
  the group.
\<close>

definition Group_slaves ::
  "'r api \<Rightarrow> group \<Rightarrow> 'r world \<Rightarrow> group dlist outcome \<times> group \<times> 'r world" where
  "Group_slaves api self w =
     (case Group_slave_names api self w of
        (Raises e, self', w') \<Rightarrow> (Raises e, self', w')
      | (Returns ns, self', w') \<Rightarrow>
          (Returns (DeadlineList_init SlaveT self' (map AStr ns)), self', w'))"

text \<open>\<open>create()\<close>. \<open>Pool\<close> calls \<open>api.Pools.AddPool\<close>, \<open>Group\<close> calls \<open>api.Group.AddGroup\<close>.\<close>

definition Pool_create :: "'r api \<Rightarrow> pool \<Rightarrow> 'r world \<Rightarrow> bool outcome \<times> 'r world" where
  "Pool_create api self w =
     (case invoke ''Pools'' ''AddPool'' (AddPool (pool_name self))
             (Pools_AddPool api (pool_name self)) w of
        (Raises e, w') \<Rightarrow> (Raises e, w')
      | (Returns result, w') \<Rightarrow>
          (Returns (result = ''Success''),
           (case Pool_POOLS_CACHE w' of
              Cached ns \<Rightarrow>
                if result = ''Success''
                then w'\<lparr>Pool_POOLS_CACHE := Cached (ns @ [pool_name self])\<rparr> else w'
            | NOT_SET \<Rightarrow> w')))"

definition Group_create :: "'r api \<Rightarrow> group \<Rightarrow> 'r world \<Rightarrow> bool outcome \<times> 'r world" where
  "Group_create api self w =
     (case invoke ''Group'' ''AddGroup'' (AddGroup (group_name self))
             (Groups_AddGroup api (group_name self)) w of
        (Raises e, w') \<Rightarrow> (Raises e, w')
      | (Returns result, w') \<Rightarrow>
          (Returns (result = ''Success''),
           (case Group_GROUPS_CACHE w' of
              Cached ns \<Rightarrow>
                if result = ''Success''
                then w'\<lparr>Group_GROUPS_CACHE := Cached (ns @ [group_name self])\<rparr> else w'
            | NOT_SET \<Rightarrow> w')))"

text \<open>
  \<open>delete(force)\<close>, second half: the remote deletion. On \<open>Success\<close> the name is taken
  out of a fetched all-names list with \<open>list.remove\<close>.
\<close>

definition Pool_delete_remote ::
  "'r api \<Rightarrow> pool \<Rightarrow> 'r world \<Rightarrow> bool outcome \<times> pool \<times> 'r world" where
  "Pool_delete_remote api self w =
     (case invoke ''Pools'' ''DeletePool'' (DeletePool (pool_name self))
             (Pools_DeletePool api (pool_name self)) w of
        (Raises e, w') \<Rightarrow> (Raises e, self, w')
      | (Returns result, w') \<Rightarrow>
          (case Pool_POOLS_CACHE w' of
             NOT_SET \<Rightarrow> (Returns (result = ''Success''), self, w')
           | Cached ns \<Rightarrow>
               if result \<noteq> ''Success'' then (Returns False, self, w')
               else (case list_remove (\<lambda>n. n = pool_name self) ns of
                       Raises e \<Rightarrow> (Raises e, self, w')
                     | Returns ns' \<Rightarrow> (Returns True, self, w'\<lparr>Pool_POOLS_CACHE := Cached ns'\<rparr>))))"

definition Group_delete_remote ::
  "'r api \<Rightarrow> group \<Rightarrow> 'r world \<Rightarrow> bool outcome \<times> group \<times> 'r world" where
  "Group_delete_remote api self w =
     (case invoke ''Groups'' ''DeleteGroup'' (DeleteGroup (group_name self))
             (Groups_DeleteGroup api (group_name self)) w of
        (Raises e, w') \<Rightarrow> (Raises e, self, w')
      | (Returns result, w') \<Rightarrow>
          (case Group_GROUPS_CACHE w' of
             NOT_SET \<Rightarrow> (Returns (result = ''Success''), self, w')
           | Cached ns \<Rightarrow>
               if result \<noteq> ''Success'' then (Returns False, self, w')
               else (case list_remove (\<lambda>n. n = group_name self) ns of
                       Raises e \<Rightarrow> (Raises e, self, w')
                     | Returns ns' \<Rightarrow> (Returns True, self, w'\<lparr>Group_GROUPS_CACHE := Cached ns'\<rparr>))))"

text \<open>
  \<open>delete(force)\<close>. Without \<open>force\<close> the members are probed with \<open>next(self.slaves)\<close>
  inside \<open>try\<close>: \<open>StopIteration\<close> lets the deletion go on, a yielded member returns
  \<open>False\<close>, and any other exception leaves the method.
\<close>

definition Pool_delete ::
  "'r api \<Rightarrow> pool \<Rightarrow> bool \<Rightarrow> 'r world \<Rightarrow> bool outcome \<times> pool \<times> 'r world" where
  "Pool_delete api self force w =
     (if force then Pool_delete_remote api self w
      else
        (case (case Pool_slaves api self w of
                 (Raises e, self', w') \<Rightarrow> (Raises e, self', w')
               | (Returns it, self', w') \<Rightarrow> (py_next it, self', w')) of
           (Returns _, self', w') \<Rightarrow> (Returns False, self', w')
         | (Raises e, self', w') \<Rightarrow>
             if e = StopIteration then Pool_delete_remote api self' w'
             else (Raises e, self', w')))"

definition Group_delete ::
  "'r api \<Rightarrow> group \<Rightarrow> bool \<Rightarrow> 'r world \<Rightarrow> bool outcome \<times> group \<times> 'r world" where
  "Group_delete api self force w =
     (if force then Group_delete_remote api self w
      else
        (case (case Group_slaves api self w of
                 (Raises e, self', w') \<Rightarrow> (Raises e, self', w')
               | (Returns proxy, self', w') \<Rightarrow> (py_next (Sequence (items proxy)), self', w')) of
           (Returns _, self', w') \<Rightarrow> (Returns False, self', w')
         | (Raises e, self', w') \<Rightarrow>
             if e = StopIteration then Group_delete_remote api self' w'
             else (Raises e, self', w')))"

section \<open>\<open>slaves.py\<close>: Status and Slave\<close>

datatype Status = Unknown | Rendering | Idle | Offline | Stalled | StartingJob | HouseCleaning

fun Status_value :: "Status \<Rightarrow> int" where
  "Status_value Unknown = 0"
| "Status_value Rendering = 1"
| "Status_value Idle = 2"
| "Status_value Offline = 3"
| "Status_value Stalled = 4"
| "Status_value StartingJob = 5"
| "Status_value HouseCleaning = 9"

text \<open>
  \<open>Status(v)\<close>: the member whose value equals \<open>v\<close>, \<open>ValueError\<close> when there is none.
\<close>

definition Status_call :: "jval \<Rightarrow> Status outcome" where
  "Status_call v =
     (case v of
        Dict _ \<Rightarrow> Raises ValueError
      | Leaf s \<Rightarrow>
          (case filter (\<lambda>m. scalar_eq (PInt (Status_value m)) s)
                  [Unknown, Rendering, Idle, Offline, Stalled, StartingJob, HouseCleaning] of
             [] \<Rightarrow> Raises ValueError
           | m # _ \<Rightarrow> Returns m))"

text \<open>\<open>d[k]\<close> on a fetched value.\<close>

definition getitem :: "jval \<Rightarrow> string \<Rightarrow> jval outcome" where
  "getitem d k =
     (case d of
        Leaf _ \<Rightarrow> Raises TypeError
      | Dict kvs \<Rightarrow> (case map_of kvs k of None \<Rightarrow> Raises KeyError | Some v \<Rightarrow> Returns v))"

text \<open>
  A slave: its name and the two instance attributes \<open>_info\<close> and \<open>_settings\<close>. The
  constructor copies them from the class-level tables.
\<close>

record slave =
  slave_name :: string
  info_cell :: "jval cell"
  settings_cell :: "hval list option cell"

definition Slave_init :: "arg \<Rightarrow> 'r world \<Rightarrow> slave" where
  "Slave_init x w =
     \<lparr>slave_name = str_of x,
      info_cell = Slave_INFO_CACHE w (str_of x),
      settings_cell = Slave_SETTINGS_CACHE w (str_of x)\<rparr>"

text \<open>The property \<open>info\<close>: fetched when the instance attribute is \<open>NOT_SET\<close>.\<close>

definition Slave_info :: "'r api \<Rightarrow> slave \<Rightarrow> 'r world \<Rightarrow> jval outcome \<times> slave \<times> 'r world" where
  "Slave_info api self w =
     (case info_cell self of
        Cached v \<Rightarrow> (Returns v, self, w)
      | NOT_SET \<Rightarrow>
          (case invoke ''Slaves'' ''GetSlaveInfo'' (GetSlaveInfo (slave_name self))
                  (Slaves_GetSlaveInfo api (slave_name self)) w of
             (Raises e, w') \<Rightarrow> (Raises e, self, w')
           | (Returns j, w') \<Rightarrow>
               (let v = (if truthy j then j else Leaf PNone)
                in (Returns v, self\<lparr>info_cell := Cached v\<rparr>, w'))))"

text \<open>
  The property \<open>settings\<close>: the fetched list (or \<open>None\<close> for an empty answer) is kept in
  the instance attribute, its dictionaries placed in the store, and element 0 returned.
\<close>

definition Slave_settings :: "'r api \<Rightarrow> slave \<Rightarrow> 'r world \<Rightarrow> hval outcome \<times> slave \<times> 'r world" where
  "Slave_settings api self w =
     (case (case settings_cell self of
              Cached v \<Rightarrow> (Returns v, self, w)
            | NOT_SET \<Rightarrow>
                (case invoke ''Slaves'' ''GetSlaveSettings'' (GetSlaveSettings (slave_name self))
                        (Slaves_GetSlaveSettings api (slave_name self)) w of
                   (Raises e, w') \<Rightarrow> (Raises e, self, w')
                 | (Returns js, w') \<Rightarrow>
                     if js = [] then (Returns None, self\<lparr>settings_cell := Cached None\<rparr>, w')
                     else (case alloc_list js (heap w') of
                             (hs, h') \<Rightarrow>
                               (Returns (Some hs), self\<lparr>settings_cell := Cached (Some hs)\<rparr>,
                                w'\<lparr>heap := h'\<rparr>)))) of
        (Raises e, self', w') \<Rightarrow> (Raises e, self', w')
      | (Returns None, self', w') \<Rightarrow> (Raises TypeError, self', w')
      | (Returns (Some []), self', w') \<Rightarrow> (Raises IndexError, self', w')
      | (Returns (Some (x # _)), self', w') \<Rightarrow> (Returns x, self', w'))"

text \<open>
  \<open>_write_settings(kwargs, settings)\<close>. \<open>root\<close> is what \<open>self.settings\<close> returns, which
  stands in when \<open>settings\<close> is \<open>None\<close>; \<open>updated\<close> is the loop's flag. A value of
  \<open>kwargs\<close> that is a dictionary is written into \<open>settings[k]\<close> by a nested call; any
  other value is compared with \<open>settings[k]\<close> and stored when it differs. Subscripting
  anything but a dictionary raises \<open>TypeError\<close>, a missing key \<open>KeyError\<close>; what was
  written before stays written.
\<close>

definition ne_stored :: "hval \<Rightarrow> scalar \<Rightarrow> bool" where
  "ne_stored cur v = (case cur of HLeaf c \<Rightarrow> \<not> scalar_eq c v | HRef _ \<Rightarrow> True)"

fun write_settings ::
  "hval \<Rightarrow> (string \<times> jval) list \<Rightarrow> hval \<Rightarrow> bool \<Rightarrow> heap \<Rightarrow> bool outcome \<times> heap" where
  "write_settings root [] settings updated h = (Returns updated, h)"
| "write_settings root ((k, v) # kwargs) settings updated h =
     (case (if settings = HLeaf PNone then root else settings) of
        HLeaf _ \<Rightarrow> (Raises TypeError, h)
      | HRef a \<Rightarrow>
          (case heap_get h a of
             None \<Rightarrow> (Raises TypeError, h)
           | Some d \<Rightarrow>
               (case map_of d k of
                  None \<Rightarrow> (Raises KeyError, h)
                | Some cur \<Rightarrow>
                    (case v of
                       Dict kw \<Rightarrow>
                         (case write_settings root kw cur False h of
                            (Raises e, h') \<Rightarrow> (Raises e, h')
                          | (Returns u, h') \<Rightarrow>
                              write_settings root kwargs settings (updated \<or> u) h')
                     | Leaf s \<Rightarrow>
                         if ne_stored cur s
                         then write_settings root kwargs settings True
                                (h[a := dict_set d k (HLeaf s)])
                         else write_settings root kwargs settings updated h))))"

text \<open>\<open>update_settings(**kwargs)\<close>.\<close>

definition Slave_update_settings ::
  "'r api \<Rightarrow> slave \<Rightarrow> (string \<times> jval) list \<Rightarrow> 'r world \<Rightarrow> bool outcome \<times> slave \<times> 'r world" where
  "Slave_update_settings api self kwargs w =
     (case Slave_settings api self w of
        (Raises e, self1, w1) \<Rightarrow> (Raises e, self1, w1)
      | (Returns root, self1, w1) \<Rightarrow>
          (case write_settings root kwargs root False (heap w1) of
             (Raises e, h2) \<Rightarrow> (Raises e, self1, w1\<lparr>heap := h2\<rparr>)
           | (Returns update_required, h2) \<Rightarrow>
               if update_required
               then
                 (case Slave_settings api self1 (w1\<lparr>heap := h2\<rparr>) of
                    (Raises e, self3, w3) \<Rightarrow> (Raises e, self3, w3)
                  | (Returns obj, self3, w3) \<Rightarrow>
                      (case invoke ''Slaves'' ''SaveSlaveSettings'' (SaveSlaveSettings obj)
                              (Slaves_SaveSlaveSettings api (heap w3) obj) w3 of
                         (Raises e, w4) \<Rightarrow> (Raises e, self3, w4)
                       | (Returns result, w4) \<Rightarrow>
                           (Returns (result \<in> set [''Success'', ''No updates required'']),
                            self3, w4)))
               else (Returns (''No updates required'' \<in> set [''Success'', ''No updates required'']),
                     self1, w1\<lparr>heap := h2\<rparr>)))"

text \<open>
  \<open>status\<close> is \<open>Status(self.data['Stat'])\<close>. Nothing binds an attribute \<open>data\<close>: the
  instance has \<open>name\<close>, \<open>_info\<close> and \<open>_settings\<close>; \<open>Slave\<close> has the three cache
  attributes, \<open>_all\<close>, \<open>all\<close>, \<open>info\<close>, \<open>settings\<close>, \<open>_write_settings\<close>,
  \<open>update_settings\<close>, \<open>exists\<close>, \<open>status\<close>, \<open>offline\<close>, \<open>idle\<close>, \<open>rendering\<close>,
  \<open>stalled\<close>, \<open>enabled\<close>, \<open>disabled\<close>, \<open>enable\<close>, \<open>disable\<close>, \<open>pools\<close>, \<open>groups\<close> and
  \<open>extra_info\<close>; \<open>DeadlineItem\<close> adds \<open>lower\<close>, \<open>upper\<close> and the special methods. So
  reading \<open>self.data\<close> raises \<open>AttributeError\<close>.
\<close>

definition Slave_data :: "slave \<Rightarrow> jval outcome" where
  "Slave_data self = Raises AttributeError"

definition Slave_status :: "slave \<Rightarrow> Status outcome" where
  "Slave_status self =
     (case Slave_data self of
        Raises e \<Rightarrow> Raises e
      | Returns d \<Rightarrow>
          (case getitem d ''Stat'' of
             Raises e \<Rightarrow> Raises e
           | Returns v \<Rightarrow> Status_call v))"

text \<open>
  The derived properties: \<open>offline\<close>, \<open>rendering\<close> and \<open>stalled\<close> compare \<open>self.status\<close>
  with one member, \<open>idle\<close> tests it against \<open>(Status.Idle, Status.HouseCleaning)\<close>.
\<close>

definition Slave_offline :: "slave \<Rightarrow> bool outcome" where
  "Slave_offline self =
     (case Slave_status self of Raises e \<Rightarrow> Raises e | Returns st \<Rightarrow> Returns (st = Offline))"

definition Slave_idle :: "slave \<Rightarrow> bool outcome" where
  "Slave_idle self =
     (case Slave_status self of
        Raises e \<Rightarrow> Raises e
      | Returns st \<Rightarrow> Returns (st \<in> set [Idle, HouseCleaning]))"

definition Slave_rendering :: "slave \<Rightarrow> bool outcome" where
  "Slave_rendering self =
     (case Slave_status self of Raises e \<Rightarrow> Raises e | Returns st \<Rightarrow> Returns (st = Rendering))"

definition Slave_stalled :: "slave \<Rightarrow> bool outcome" where
  "Slave_stalled self =
     (case Slave_status self of Raises e \<Rightarrow> Raises e | Returns st \<Rightarrow> Returns (st = Stalled))"

section \<open>\<open>groups.py\<close> and \<open>slaves.py\<close>: the proxies SlaveGroups and GroupSlaves\<close>

text \<open>\<open>s.split(',')\<close> and \<open>','.join(parts)\<close>.\<close>

fun str_split :: "char \<Rightarrow> string \<Rightarrow> string list" where
  "str_split sep [] = [ [] ]"
| "str_split sep (c # cs) =
     (if c = sep then [] # str_split sep cs
      else (case str_split sep cs of
              [] \<Rightarrow> [ [c] ]
            | p # ps \<Rightarrow> (c # p) # ps))"

fun str_join :: "string \<Rightarrow> string list \<Rightarrow> string" where
  "str_join sep [] = []"
| "str_join sep [p] = p"
| "str_join sep (p # q # ps) = p @ sep @ str_join sep (q # ps)"

text \<open>
  The property \<open>Slave.groups\<close>: \<open>SlaveGroups(self, self.info['Grps'].split(','))\<close>, a
  proxy of groups owned by the slave. Only a string has \<open>split\<close>.
\<close>

definition Slave_groups ::
  "'r api \<Rightarrow> slave \<Rightarrow> 'r world \<Rightarrow> slave dlist outcome \<times> slave \<times> 'r world" where
  "Slave_groups api self w =
     (case Slave_info api self w of
        (Raises e, self', w') \<Rightarrow> (Raises e, self', w')
      | (Returns v, self', w') \<Rightarrow>
          (case getitem v ''Grps'' of
             Raises e \<Rightarrow> (Raises e, self', w')
           | Returns (Dict _) \<Rightarrow> (Raises AttributeError, self', w')
           | Returns (Leaf PNone) \<Rightarrow> (Raises AttributeError, self', w')
           | Returns (Leaf (PBool _)) \<Rightarrow> (Raises AttributeError, self', w')
           | Returns (Leaf (PInt _)) \<Rightarrow> (Raises AttributeError, self', w')
           | Returns (Leaf (PStr grps)) \<Rightarrow>
               (Returns (DeadlineList_init GroupT self' (map AStr (str_split CHR '','' grps))),
                self', w')))"

text \<open>
  The last statement of each SlaveGroups hook:
  \<open>self.slave.info['Grps'] = ','.join(map(str, self.groups))\<close>. It changes the
  dictionary the slave instance holds; item assignment needs a dictionary.
\<close>

definition SlaveGroups_patch ::
  "'r api \<Rightarrow> slave dlist \<Rightarrow> 'r world \<Rightarrow> unit outcome \<times> slave dlist \<times> 'r world" where
  "SlaveGroups_patch api self w =
     (let grps = str_join '','' (map name (items self))
      in case Slave_info api (source self) w of
           (Raises e, s', w') \<Rightarrow> (Raises e, self\<lparr>source := s'\<rparr>, w')
         | (Returns (Leaf _), s', w') \<Rightarrow> (Raises TypeError, self\<lparr>source := s'\<rparr>, w')
         | (Returns (Dict d), s', w') \<Rightarrow>
             (Returns (),
              self\<lparr>source := s'\<lparr>info_cell := Cached (Dict (dict_set d ''Grps'' (Leaf (PStr grps))))\<rparr>\<rparr>,
              w'))"

text \<open>
  The hooks of SlaveGroups: the log line of the base class has no effect here; then one
  remote call, whose result is only logged; then the patch.
\<close>

definition SlaveGroups_hooks :: "'r api \<Rightarrow> (slave, 'r world) hooks" where
  "SlaveGroups_hooks api =
     \<lparr>trigger_add = (\<lambda>self item w.
        case invoke ''Slaves'' ''AddGroupToSlave''
               (AddGroupToSlave (slave_name (source self)) (name item))
               (Slaves_AddGroupToSlave api (slave_name (source self)) (name item)) w of
          (Raises e, w') \<Rightarrow> (Raises e, self, w')
        | (Returns result, w') \<Rightarrow> SlaveGroups_patch api self w'),
      trigger_remove = (\<lambda>self x w.
        case invoke ''Slaves'' ''RemoveGroupFromSlave''
               (RemoveGroupFromSlave (slave_name (source self)) (str_of x))
               (Slaves_RemoveGroupFromSlave api (slave_name (source self)) (str_of x)) w of
          (Raises e, w') \<Rightarrow> (Raises e, self, w')
        | (Returns result, w') \<Rightarrow> SlaveGroups_patch api self w'),
      trigger_set = (\<lambda>self previous w.
        case invoke ''Slaves'' ''SetGroupsForSlave''
               (SetGroupsForSlave (OneName (slave_name (source self)))
                  (NameList (map name (items self))))
               (Slaves_SetGroupsForSlave api (OneName (slave_name (source self)))
                  (NameList (map name (items self)))) w of
          (Raises e, w') \<Rightarrow> (Raises e, self, w')
        | (Returns result, w') \<Rightarrow> SlaveGroups_patch api self w')\<rparr>"

text \<open>
  \<open>set(xs)\<close> and \<open>a - b\<close> on items. Two items fall together in a set when their hashes
  agree and they are equal; the hash is that of the \<open>repr\<close>, which spells the class and
  the lower-cased name (a chance collision of two different \<open>repr\<close> strings is left out).
  \<open>py_set\<close> and \<open>set_diff\<close> give the elements of the set, each once. The order in which
  a set is iterated follows the hashes of its elements, and the hash of a string differs
  from one process to the next: code that iterates a set takes that order as the
  parameter \<open>order\<close>, a function that rearranges the elements.
\<close>

definition same_key :: "item \<Rightarrow> item \<Rightarrow> bool" where
  "same_key x y = (cls x = cls y \<and> DeadlineItem_eq x (AItem y))"

definition py_set :: "item list \<Rightarrow> item list" where
  "py_set xs = fold (\<lambda>x acc. if list_ex (\<lambda>y. same_key y x) acc then acc else acc @ [x]) xs []"

definition set_diff :: "item list \<Rightarrow> item list \<Rightarrow> item list" where
  "set_diff a b = filter (\<lambda>x. \<not> list_ex (\<lambda>y. same_key y x) b) a"

text \<open>
  \<open>Slave(slave).groups.append(self.group)\<close> and \<open>Slave(slave).groups.remove(self.group)\<close>:
  a new slave instance, its group proxy, and the proxy's method. The result carries the
  slave instance as the call leaves it, which is the owner of the proxy.
\<close>

definition Slave_groups_append ::
  "'r api \<Rightarrow> arg \<Rightarrow> group \<Rightarrow> 'r world \<Rightarrow> unit outcome \<times> slave \<times> 'r world" where
  "Slave_groups_append api slave g w =
     (case Slave_groups api (Slave_init slave w) w of
        (Raises e, s', w') \<Rightarrow> (Raises e, s', w')
      | (Returns proxy, s', w') \<Rightarrow>
          (case DeadlineList_append (SlaveGroups_hooks api) proxy (AItem (Group_item g)) w' of
             (r, proxy', w'') \<Rightarrow> (r, source proxy', w'')))"

definition Slave_groups_remove ::
  "'r api \<Rightarrow> arg \<Rightarrow> group \<Rightarrow> 'r world \<Rightarrow> unit outcome \<times> slave \<times> 'r world" where
  "Slave_groups_remove api slave g w =
     (case Slave_groups api (Slave_init slave w) w of
        (Raises e, s', w') \<Rightarrow> (Raises e, s', w')
      | (Returns proxy, s', w') \<Rightarrow>
          (case DeadlineList_remove (SlaveGroups_hooks api) proxy (AItem (Group_item g)) w' of
             (r, proxy', w'') \<Rightarrow> (r, source proxy', w'')))"

text \<open>
  The loop \<open>for slave in map(Slave, old - new): slave.groups.remove(self.group)\<close>. Each
  slave instance is dropped when the loop moves on.
\<close>

fun remove_from_each :: "'r api \<Rightarrow> group \<Rightarrow> item list \<Rightarrow> 'r world \<Rightarrow> unit outcome \<times> 'r world" where
  "remove_from_each api g [] w = (Returns (), w)"
| "remove_from_each api g (x # xs) w =
     (case Slave_groups_remove api (AItem x) g w of
        (Raises e, s', w') \<Rightarrow> (Raises e, w')
      | (Returns _, s', w') \<Rightarrow> remove_from_each api g xs w')"

text \<open>
  The hooks of GroupSlaves. \<open>trigger_set\<close> makes one \<open>SetGroupsForSlave\<close> call for the
  slaves that are new, listed as the set \<open>new - old\<close> is iterated, then takes the group
  off every slave that is gone, as the set \<open>old - new\<close> is iterated. The result of the
  call is only logged.
\<close>

definition GroupSlaves_hooks ::
  "(item list \<Rightarrow> item list) \<Rightarrow> 'r api \<Rightarrow> (group, 'r world) hooks" where
  "GroupSlaves_hooks order api =
     \<lparr>trigger_add = (\<lambda>self slave w.
        case Slave_groups_append api (AItem slave) (source self) w of
          (r, s', w') \<Rightarrow> (r, self, w')),
      trigger_remove = (\<lambda>self slave w.
        case Slave_groups_remove api slave (source self) w of
          (r, s', w') \<Rightarrow> (r, self, w')),
      trigger_set = (\<lambda>self previous w.
        let old = py_set previous;
            new = py_set (items self)
        in case invoke ''Slaves'' ''SetGroupsForSlave''
                  (SetGroupsForSlave (NameList (map name (order (set_diff new old))))
                     (OneName (group_name (source self))))
                  (Slaves_SetGroupsForSlave api (NameList (map name (order (set_diff new old))))
                     (OneName (group_name (source self)))) w of
             (Raises e, w') \<Rightarrow> (Raises e, self, w')
           | (Returns result, w') \<Rightarrow>
               (case remove_from_each api (source self) (order (set_diff old new)) w' of
                  (r, w'') \<Rightarrow> (r, self, w'')))\<rparr>"

text \<open>The setter of \<open>Group.slaves\<close>: \<open>self.slaves[:] = slaves\<close>.\<close>

definition Group_set_slaves ::
  "(item list \<Rightarrow> item list) \<Rightarrow> 'r api \<Rightarrow> group \<Rightarrow> arg list \<Rightarrow> 'r world
     \<Rightarrow> unit outcome \<times> group \<times> 'r world" where
  "Group_set_slaves order api self slaves w =
     (case Group_slaves api self w of
        (Raises e, self', w') \<Rightarrow> (Raises e, self', w')
      | (Returns proxy, self', w') \<Rightarrow>
          (case DeadlineList_setitem (GroupSlaves_hooks order api) proxy
                  (SetSlice (Slice None None None) slaves) w' of
             (r, proxy', w'') \<Rightarrow> (r, source proxy', w'')))"

text \<open>
  \<open>x in P\<close>: the sequence protocol walks the elements and tests \<open>v == x\<close> on each.
\<close>

definition DeadlineList_contains :: "'src dlist \<Rightarrow> arg \<Rightarrow> bool" where
  "DeadlineList_contains self x = list_ex (\<lambda>v. DeadlineItem_eq v x) (items self)"

text \<open>\<open>g in Slave(s).groups\<close> on a new slave instance.\<close>

definition Slave_in_group :: "'r api \<Rightarrow> string \<Rightarrow> string \<Rightarrow> 'r world \<Rightarrow> bool outcome" where
  "Slave_in_group api s g w =
     (case Slave_groups api (Slave_init (AStr s) w) w of
        (Raises e, s', w') \<Rightarrow> Raises e
      | (Returns proxy, s', w') \<Rightarrow> Returns (DeadlineList_contains proxy (AStr g)))"

section \<open>Concrete remote services\<close>

text \<open>
  A remote service without state of its own that answers every operation returning a
  status with the string \<open>status\<close>, and every query with an empty result. It serves as
  a concrete input.
\<close>

definition answering_api :: "string \<Rightarrow> unit api" where
  "answering_api status =
     \<lparr>Slaves_GetSlaveNames = (\<lambda>r. ([], r)),
      Slaves_GetSlaveInfo = (\<lambda>n r. (Leaf PNone, r)),
      Slaves_GetSlaveSettings = (\<lambda>n r. ([], r)),
      Slaves_SaveSlaveSettings = (\<lambda>h obj r. (status, r)),
      Slaves_SetGroupsForSlave = (\<lambda>s g r. (status, r)),
      Slaves_GetSlaveNamesInGroup = (\<lambda>n r. ([], r)),
      Slaves_GetSlaveNamesInPool = (\<lambda>n r. ([], r)),
      Slaves_AddGroupToSlave = (\<lambda>s g r. (status, r)),
      Slaves_RemoveGroupFromSlave = (\<lambda>s g r. (status, r)),
      Pools_GetPoolNames = (\<lambda>r. ([], r)),
      Pools_AddPool = (\<lambda>n r. (status, r)),
      Pools_DeletePool = (\<lambda>n r. (status, r)),
      Groups_GetGroupNames = (\<lambda>r. ([], r)),
      Groups_AddGroup = (\<lambda>n r. (status, r)),
      Groups_DeleteGroup = (\<lambda>n r. (status, r))\<rparr>"

text \<open>The process at start: nothing called, nothing stored, every cache unset.\<close>

definition initial_world :: "'r \<Rightarrow> 'r world" where
  "initial_world r =
     \<lparr>remote = r, calls = [], heap = [],
      Slave_SLAVES_CACHE = NOT_SET,
      Slave_INFO_CACHE = (\<lambda>n. NOT_SET),
      Slave_SETTINGS_CACHE = (\<lambda>n. NOT_SET),
      Pool_POOLS_CACHE = NOT_SET,
      Pool_SLAVES_CACHE = (\<lambda>n. NOT_SET),
      Group_GROUPS_CACHE = NOT_SET,
      Group_SLAVES_CACHE = (\<lambda>n. NOT_SET)\<rparr>"

text \<open>
  A slave whose settings are already fetched: the list holds one dictionary, at address
  0 of the store, with the single key \<open>Enable\<close>.
\<close>

definition example_slave :: slave where
  "example_slave =
     \<lparr>slave_name = ''node-1'', info_cell = NOT_SET, settings_cell = Cached (Some [HRef 0])\<rparr>"

definition example_world :: "bool \<Rightarrow> unit world" where
  "example_world enable = (initial_world ())\<lparr>heap := [ [(''Enable'', HLeaf (PBool enable))] ]\<rparr>"

text \<open>
  Modelled from the spec: the RemoteService, the farm manager behind \<open>api\<close>, is not part
  of the repository. The spec names its membership operations (add, remove and set
  group-for-slave, the bulk set of a group for slaves) and says each answers with a
  status string, \<open>Success\<close> or a failure. This reference service keeps, for every slave it
  knows, the list of its group names; a slave's info reports them comma-joined under
  \<open>Grps\<close>; the members of a group are the slaves whose list has the group's name. Which
  changes the service accepts is its parameter \<open>accepts\<close>: an accepted change is carried
  out and answered with \<open>Success\<close>, any other is answered with \<open>Error\<close> and changes
  nothing.
\<close>

type_synonym farm = "(string \<times> string list) list"

fun names_list :: "names \<Rightarrow> string list" where
  "names_list (OneName n) = [n]"
| "names_list (NameList ns) = ns"

definition farm_members :: "farm \<Rightarrow> string \<Rightarrow> string list" where
  "farm_members farm g = map fst (filter (\<lambda>(s, gs). g \<in> set gs) farm)"

definition farm_info :: "farm \<Rightarrow> string \<Rightarrow> jval" where
  "farm_info farm s =
     (case map_of farm s of
        None \<Rightarrow> Dict []
      | Some gs \<Rightarrow> Dict [(''Grps'', Leaf (PStr (str_join '','' gs)))])"

definition farm_set_groups :: "string list \<Rightarrow> string list \<Rightarrow> farm \<Rightarrow> farm" where
  "farm_set_groups slaves groups farm =
     map (\<lambda>(s, gs). if s \<in> set slaves then (s, groups) else (s, gs)) farm"

definition farm_add_group :: "string \<Rightarrow> string \<Rightarrow> farm \<Rightarrow> farm" where
  "farm_add_group slave g farm =
     map (\<lambda>(s, gs). if s = slave \<and> g \<notin> set gs then (s, gs @ [g]) else (s, gs)) farm"

definition farm_remove_group :: "string \<Rightarrow> string \<Rightarrow> farm \<Rightarrow> farm" where
  "farm_remove_group slave g farm =
     map (\<lambda>(s, gs). if s = slave then (s, removeAll g gs) else (s, gs)) farm"

definition farm_change ::
  "(call \<Rightarrow> bool) \<Rightarrow> call \<Rightarrow> (farm \<Rightarrow> farm) \<Rightarrow> farm \<Rightarrow> string \<times> farm" where
  "farm_change accepts c f r = (if accepts c then (''Success'', f r) else (''Error'', r))"

definition farm_api :: "(call \<Rightarrow> bool) \<Rightarrow> farm api" where
  "farm_api accepts =
     \<lparr>Slaves_GetSlaveNames = (\<lambda>r. (map fst r, r)),
      Slaves_GetSlaveInfo = (\<lambda>n r. (farm_info r n, r)),
      Slaves_GetSlaveSettings = (\<lambda>n r. ([], r)),
      Slaves_SaveSlaveSettings = (\<lambda>h obj r. farm_change accepts (SaveSlaveSettings obj) (\<lambda>r. r) r),
      Slaves_SetGroupsForSlave = (\<lambda>s g r.
        farm_change accepts (SetGroupsForSlave s g) (farm_set_groups (names_list s) (names_list g)) r),
      Slaves_GetSlaveNamesInGroup = (\<lambda>n r. (farm_members r n, r)),
      Slaves_GetSlaveNamesInPool = (\<lambda>n r. ([], r)),
      Slaves_AddGroupToSlave = (\<lambda>s g r.
        farm_change accepts (AddGroupToSlave s g) (farm_add_group s g) r),
      Slaves_RemoveGroupFromSlave = (\<lambda>s g r.
        farm_change accepts (RemoveGroupFromSlave s g) (farm_remove_group s g) r),
      Pools_GetPoolNames = (\<lambda>r. ([], r)),
      Pools_AddPool = (\<lambda>n r. farm_change accepts (AddPool n) (\<lambda>r. r) r),
      Pools_DeletePool = (\<lambda>n r. farm_change accepts (DeletePool n) (\<lambda>r. r) r),
      Groups_GetGroupNames = (\<lambda>r. (remdups (concat (map snd r)), r)),
      Groups_AddGroup = (\<lambda>n r. farm_change accepts (AddGroup n) (\<lambda>r. r) r),
      Groups_DeleteGroup = (\<lambda>n r. farm_change accepts (DeleteGroup n) (\<lambda>r. r) r)\<rparr>"

text \<open>
  The farm's names are well formed when no two slaves have names that agree once
  lower-cased, and each slave's group names are not empty, have no comma, and no two of
  them agree once lower-cased. (The client compares names lower-cased and keeps a
  slave's groups in one comma-joined string.)
\<close>

definition farm_ok :: "farm \<Rightarrow> bool" where
  "farm_ok farm =
     (distinct (map (\<lambda>(s, gs). str_lower s) farm)
      \<and> list_all (\<lambda>(s, gs). distinct (map str_lower gs)
                             \<and> list_all (\<lambda>x. x \<noteq> [] \<and> CHR '','' \<notin> set x) gs) farm)"

text \<open>A farm of three slaves: the group \<open>g\<close> has the members \<open>s1\<close> and \<open>s3\<close>.\<close>

definition example_farm :: farm where
  "example_farm = [(''s1'', [''g'']), (''s2'', [''other'']), (''s3'', [''x'', ''g''])]"

text \<open>
  A service that accepts every change and one that refuses every change; and the
  iteration order that leaves the elements as they were put in.
\<close>

definition accepting :: "call \<Rightarrow> bool" where
  "accepting c = True"

definition refusing :: "call \<Rightarrow> bool" where
  "refusing c = False"

definition insertion_order :: "item list \<Rightarrow> item list" where
  "insertion_order xs = xs"

section \<open>Properties of DeadlineItem\<close>

lemma DeadlineItem_eq_items:
  "DeadlineItem_eq a (AItem b) = (str_lower (name a) = str_lower (name b))"
  by simp

declare DeadlineItem_eq.simps(1) [simp del]
declare DeadlineItem_eq_items [simp]

lemma lower_upper_char_ascii:
  "(of_char c :: nat) < 128 \<Longrightarrow> \<exists>d. upper_char c = Some [d] \<and> lower_char d = lower_char c"
  by (auto simp: upper_char_def lower_char_def Let_def of_char_of)

lemma str_upper_ascii:
  "is_ascii n \<Longrightarrow> \<exists>u. str_upper n = Some u \<and> str_lower u = str_lower n"
proof (induction n)
  case Nil
  then show ?case by (simp add: str_lower_def)
next
  case (Cons c cs)
  then obtain us where us: "str_upper cs = Some us" "str_lower us = str_lower cs"
    by (auto simp: is_ascii_def)
  from Cons.prems obtain d where d: "upper_char c = Some [d]" "lower_char d = lower_char c"
    using lower_upper_char_ascii [of c] by (auto simp: is_ascii_def)
  show ?case using us d by (simp add: str_lower_def)
qed

lemma hash_consistent:
  "cls a = cls b \<Longrightarrow> DeadlineItem_eq a (AItem b) \<Longrightarrow>
   DeadlineItem_hash r h a = DeadlineItem_hash r h b"
  by (simp add: DeadlineItem_hash_def DeadlineItem_repr_def)

text \<open>
  C5 (amended). For every name \<open>n\<close> of ASCII characters, an item named \<open>n\<close> equals
  the item of the same class named \<open>n.upper()\<close>; and two items of the same class that
  compare equal have equal hashes, whatever the interpreter's \<open>repr\<close> and string hash.
\<close>

theorem DeadlineItem_eq_upper_ascii_and_hash:
  "(is_ascii n \<longrightarrow>
      (\<exists>u. str_upper n = Some u \<and>
           DeadlineItem_eq (new_item t (AStr n)) (AItem (new_item t (AStr u)))))
   \<and> (cls a = cls b \<and> DeadlineItem_eq a (AItem b) \<longrightarrow>
        DeadlineItem_hash r h a = DeadlineItem_hash r h b)"
proof (intro conjI impI)
  assume "is_ascii n"
  then obtain u where "str_upper n = Some u" "str_lower u = str_lower n"
    using str_upper_ascii by blast
  then show "\<exists>u. str_upper n = Some u \<and>
           DeadlineItem_eq (new_item t (AStr n)) (AItem (new_item t (AStr u)))"
    by (simp add: new_item_def)
next
  assume "cls a = cls b \<and> DeadlineItem_eq a (AItem b)"
  then show "DeadlineItem_hash r h a = DeadlineItem_hash r h b"
    using hash_consistent by blast
qed

theorem DeadlineItem_eq_upper_ascii_and_hash_witness:
  "is_ascii ''Node-7'' \<and> str_upper ''Node-7'' = Some ''NODE-7'' \<and>
   DeadlineItem_eq (new_item SlaveT (AStr ''Node-7'')) (AItem (new_item SlaveT (AStr ''NODE-7''))) \<and>
   DeadlineItem_hash (\<lambda>s. s) (\<lambda>s. int (length s)) (new_item SlaveT (AStr ''Node-7'')) =
     DeadlineItem_hash (\<lambda>s. s) (\<lambda>s. int (length s)) (new_item SlaveT (AStr ''NODE-7''))"
proof -
  have a: "is_ascii ''Node-7''" by (simp add: is_ascii_def)
  have u: "str_upper ''Node-7'' = Some ''NODE-7''" by code_simp
  from DeadlineItem_eq_upper_ascii_and_hash
         [of "''Node-7''" SlaveT "new_item SlaveT (AStr ''Node-7'')"
             "new_item SlaveT (AStr ''NODE-7'')" "\<lambda>s. s" "\<lambda>s. int (length s)"] a u
  show ?thesis by (simp add: new_item_def)
qed

text \<open>
  The claim as stated, for every name, fails where upper-casing changes the letters for
  good: the upper case of U+00DF is \<open>SS\<close>, whose lower case \<open>ss\<close> is not U+00DF.
\<close>

theorem DeadlineItem_eq_upper_sharp_s:
  "str_upper [CHR 0xDF] = Some ''SS'' \<and>
   \<not> DeadlineItem_eq (new_item DeadlineItemT (AStr [CHR 0xDF]))
        (AItem (new_item DeadlineItemT (AStr ''SS'')))"
  by (simp add: upper_char_def new_item_def str_lower_def)

section \<open>Properties of DeadlineList\<close>

lemma item_type_init [simp]: "item_type (DeadlineList_init t src xs) = t"
  by (simp add: DeadlineList_init_def)

lemma items_init [simp]: "items (DeadlineList_init t src xs) = map (new_item t) xs"
  by (simp add: DeadlineList_init_def)

lemma recording_add:
  "trigger_add (recording h) P item (w, tr) =
     (case trigger_add h P item w of
        (r, P', w') \<Rightarrow> (r, P', (w', tr @ [Trigger_add item])))"
  by (simp add: recording_def)

lemma recording_remove:
  "trigger_remove (recording h) P x (w, tr) =
     (case trigger_remove h P x w of
        (r, P', w') \<Rightarrow> (r, P', (w', tr @ [Trigger_remove x])))"
  by (simp add: recording_def)

lemma recording_set:
  "trigger_set (recording h) P previous (w, tr) =
     (case trigger_set h P previous w of
        (r, P', w') \<Rightarrow> (r, P', (w', tr @ [Trigger_set previous])))"
  by (simp add: recording_def)

lemma own_hooks [simp]:
  "trigger_add DeadlineList_hooks P item w = (Returns (), P, w)"
  "trigger_remove DeadlineList_hooks P x w = (Returns (), P, w)"
  "trigger_set DeadlineList_hooks P previous w = (Returns (), P, w)"
  by (simp_all add: DeadlineList_hooks_def)

text \<open>The list operations, written out with the list functions of HOL.\<close>

lemma norm_index_explicit:
  "norm_index n i =
     (if - int n \<le> i \<and> i < int n then Some (nat (if i < 0 then i + int n else i)) else None)"
  by (auto simp: norm_index_def Let_def)

lemma list_remove_explicit:
  "list_remove eq xs =
     (if \<exists>e\<in>set xs. eq e
      then Returns (takeWhile (\<lambda>e. \<not> eq e) xs @ tl (dropWhile (\<lambda>e. \<not> eq e) xs))
      else Raises ValueError)"
  by (induction xs) auto

lemma list_insert_explicit:
  "list_insert xs i v =
     (if - (2 ^ 63) \<le> i \<and> i < 2 ^ 63
      then Returns (take (nat (if i < 0 then max 0 (i + int (length xs)) else min i (int (length xs)))) xs
                    @ v # drop (nat (if i < 0 then max 0 (i + int (length xs))
                                     else min i (int (length xs)))) xs)
      else Raises OverflowError)"
  by (auto simp: list_insert_def fits_ssize_t_def Let_def max_def min_def)

lemma list_pop_explicit:
  "list_pop xs i =
     (if \<not> (- (2 ^ 63) \<le> i \<and> i < 2 ^ 63) then Raises OverflowError
      else if - int (length xs) \<le> i \<and> i < int (length xs)
      then Returns (xs ! nat (if i < 0 then i + int (length xs) else i),
                    take (nat (if i < 0 then i + int (length xs) else i)) xs
                    @ drop (Suc (nat (if i < 0 then i + int (length xs) else i))) xs)
      else Raises IndexError)"
  by (simp add: list_pop_def fits_ssize_t_def norm_index_explicit)

lemma clip_bound_step_1:
  "clip_bound n 1 v = (if v < 0 then max 0 (v + int n) else min v (int n))"
  by (simp add: clip_bound_def max_def min_def)

lemma slice_adjust_step_1:
  assumes "st = None \<or> st = Some 1"
  shows "\<exists>len. slice_adjust n (Slice lo hi st) =
           Returns
             ((case lo of None \<Rightarrow> 0 | Some v \<Rightarrow> if v < 0 then max 0 (v + int n) else min v (int n)),
              (case hi of None \<Rightarrow> int n | Some v \<Rightarrow> if v < 0 then max 0 (v + int n) else min v (int n)),
              1, len)"
proof -
  from assms have step: "(case st of None \<Rightarrow> 1 | Some s \<Rightarrow> s) = (1::int)"
    by auto
  have lo: "(case lo of None \<Rightarrow> if (1::int) < 0 then int n - 1 else 0 | Some v \<Rightarrow> clip_bound n 1 v)
              = (case lo of None \<Rightarrow> 0 | Some v \<Rightarrow> if v < 0 then max 0 (v + int n) else min v (int n))"
    by (simp add: clip_bound_step_1 split: option.splits)
  have hi: "(case hi of None \<Rightarrow> if (1::int) < 0 then - 1 else int n | Some v \<Rightarrow> clip_bound n 1 v)
              = (case hi of None \<Rightarrow> int n | Some v \<Rightarrow> if v < 0 then max 0 (v + int n) else min v (int n))"
    by (simp add: clip_bound_step_1 split: option.splits)
  show ?thesis
    by (simp only: slice_adjust.simps Let_def step lo hi) simp
qed

lemma nat_max_nonneg: "0 \<le> a \<Longrightarrow> 0 \<le> b \<Longrightarrow> nat (max a b) = max (nat a) (nat b)"
  by (simp add: max_def)

lemma simple_bound_nonneg:
  "0 \<le> d \<Longrightarrow>
   0 \<le> (case b of None \<Rightarrow> d | Some v \<Rightarrow> if v < 0 then max 0 (v + int n) else min v (int n))"
  by (simp split: option.splits)

lemma list_set_slice_step_1:
  assumes "st = None \<or> st = Some 1"
  shows "list_set_slice xs (Slice lo hi st) vs =
           Returns
             (take (nat (case lo of None \<Rightarrow> 0
                         | Some v \<Rightarrow> if v < 0 then max 0 (v + int (length xs))
                                     else min v (int (length xs)))) xs
              @ vs
              @ drop (max (nat (case lo of None \<Rightarrow> 0
                                | Some v \<Rightarrow> if v < 0 then max 0 (v + int (length xs))
                                            else min v (int (length xs))))
                          (nat (case hi of None \<Rightarrow> int (length xs)
                                | Some v \<Rightarrow> if v < 0 then max 0 (v + int (length xs))
                                            else min v (int (length xs))))) xs)"
proof -
  from slice_adjust_step_1 [OF assms, of "length xs" lo hi] obtain len where
    "slice_adjust (length xs) (Slice lo hi st) =
       Returns
         ((case lo of None \<Rightarrow> 0
           | Some v \<Rightarrow> if v < 0 then max 0 (v + int (length xs)) else min v (int (length xs))),
          (case hi of None \<Rightarrow> int (length xs)
           | Some v \<Rightarrow> if v < 0 then max 0 (v + int (length xs)) else min v (int (length xs))),
          1, len)"
    by blast
  then show ?thesis
    by (simp only: list_set_slice_def outcome.case prod.case refl if_True nat_max_nonneg
          simple_bound_nonneg of_nat_0_le_iff order_refl)
qed

lemma list_del_slice_step_1:
  assumes "st = None \<or> st = Some 1"
  shows "list_del_slice xs (Slice lo hi st) =
           Returns
             (take (nat (case lo of None \<Rightarrow> 0
                         | Some v \<Rightarrow> if v < 0 then max 0 (v + int (length xs))
                                     else min v (int (length xs)))) xs
              @ drop (max (nat (case lo of None \<Rightarrow> 0
                                | Some v \<Rightarrow> if v < 0 then max 0 (v + int (length xs))
                                            else min v (int (length xs))))
                          (nat (case hi of None \<Rightarrow> int (length xs)
                                | Some v \<Rightarrow> if v < 0 then max 0 (v + int (length xs))
                                            else min v (int (length xs))))) xs)"
proof -
  from slice_adjust_step_1 [OF assms, of "length xs" lo hi] obtain len where
    "slice_adjust (length xs) (Slice lo hi st) =
       Returns
         ((case lo of None \<Rightarrow> 0
           | Some v \<Rightarrow> if v < 0 then max 0 (v + int (length xs)) else min v (int (length xs))),
          (case hi of None \<Rightarrow> int (length xs)
           | Some v \<Rightarrow> if v < 0 then max 0 (v + int (length xs)) else min v (int (length xs))),
          1, len)"
    by blast
  then show ?thesis
    by (simp only: list_del_slice_def outcome.case prod.case refl if_True nat_max_nonneg
          simple_bound_nonneg of_nat_0_le_iff order_refl)
qed

lemma slice_adjust_zero_step: "slice_adjust n (Slice lo hi (Some 0)) = Raises ValueError"
  by simp

lemma slice_adjust_raises:
  "slice_adjust n (Slice lo hi st) = Raises e \<longleftrightarrow> st = Some 0 \<and> e = ValueError"
proof (cases st)
  case None
  then show ?thesis
    by (simp add: Let_def)
next
  case (Some s)
  then show ?thesis
    by (cases "s = 0") (auto simp: Let_def)
qed

lemma list_set_slice_raises:
  assumes "list_set_slice xs sl vs = Raises e"
  shows "e = ValueError"
proof (cases sl)
  case (Slice lo hi st)
  show ?thesis
  proof (cases "slice_adjust (length xs) sl")
    case (Returns q)
    obtain a b c d where "q = (a, b, c, d)"
      by (cases q) auto
    with Returns assms show ?thesis
      by (simp add: list_set_slice_def split: if_splits)
  next
    case (Raises e')
    with Slice have "e' = ValueError"
      by (simp add: slice_adjust_raises del: slice_adjust.simps)
    with Raises assms show ?thesis
      by (simp add: list_set_slice_def)
  qed
qed

lemma list_del_slice_returns:
  "(\<exists>ys. list_del_slice xs (Slice lo hi st) = Returns ys) = (st \<noteq> Some 0)"
proof (cases "slice_adjust (length xs) (Slice lo hi st)")
  case (Returns q)
  then have "st \<noteq> Some 0"
    by (auto simp: slice_adjust_zero_step simp del: slice_adjust.simps)
  moreover obtain a b c d where "q = (a, b, c, d)"
    by (cases q) auto
  ultimately show ?thesis
    using Returns by (simp add: list_del_slice_def)
next
  case (Raises e)
  then have "st = Some 0"
    by (simp add: slice_adjust_raises del: slice_adjust.simps)
  then show ?thesis
    using Raises by (simp add: list_del_slice_def)
qed

lemma list_del_slice_raises:
  assumes "list_del_slice xs sl = Raises e"
  shows "e = ValueError"
proof (cases sl)
  case (Slice lo hi st)
  show ?thesis
  proof (cases "slice_adjust (length xs) sl")
    case (Returns q)
    obtain a b c d where "q = (a, b, c, d)"
      by (cases q) auto
    with Returns assms show ?thesis
      by (simp add: list_del_slice_def split: if_splits)
  next
    case (Raises e')
    with Slice have "e' = ValueError"
      by (simp add: slice_adjust_raises del: slice_adjust.simps)
    with Raises assms show ?thesis
      by (simp add: list_del_slice_def)
  qed
qed

text \<open>The methods of the proxy, for any three hooks.\<close>

lemma append_exact:
  "DeadlineList_append (recording h) P x (w, tr) =
     (case trigger_add h (P\<lparr>items := items P @ [new_item (item_type P) x]\<rparr>)
             (new_item (item_type P) x) w of
        (r, P', w') \<Rightarrow> (r, P', (w', tr @ [Trigger_add (new_item (item_type P) x)])))"
  by (simp add: DeadlineList_append_def recording_add Let_def)

lemma remove_exact:
  "DeadlineList_remove (recording h) P x (w, tr) =
     (if \<exists>e\<in>set (items P). DeadlineItem_eq e (AItem (new_item (item_type P) x))
      then case trigger_remove h
                  (P\<lparr>items :=
                      takeWhile (\<lambda>e. \<not> DeadlineItem_eq e (AItem (new_item (item_type P) x))) (items P)
                      @ tl (dropWhile (\<lambda>e. \<not> DeadlineItem_eq e (AItem (new_item (item_type P) x)))
                              (items P))\<rparr>) x w of
             (r, P', w') \<Rightarrow> (r, P', (w', tr @ [Trigger_remove x]))
      else (Raises ValueError, P, (w, tr)))"
  by (simp add: DeadlineList_remove_def list_remove_explicit recording_remove)

lemma setitem_index_exact:
  "DeadlineList_setitem (recording h) P (SetIndex i x) (w, tr) =
     (if - int (length (items P)) \<le> i \<and> i < int (length (items P))
      then case trigger_set h
                  (P\<lparr>items := (items P)[nat (if i < 0 then i + int (length (items P)) else i)
                                          := new_item (item_type P) x]\<rparr>) (items P) w of
             (r, P', w') \<Rightarrow> (r, P', (w', tr @ [Trigger_set (items P)]))
      else (Raises IndexError, P, (w, tr)))"
  by (simp add: DeadlineList_setitem_def list_set_index_def norm_index_explicit recording_set Let_def)

lemma delitem_index_exact:
  "DeadlineList_delitem (recording h) P (DelIndex i) (w, tr) =
     (if - int (length (items P)) \<le> i \<and> i < int (length (items P))
      then case trigger_set h
                  (P\<lparr>items := take (nat (if i < 0 then i + int (length (items P)) else i)) (items P)
                              @ drop (Suc (nat (if i < 0 then i + int (length (items P)) else i)))
                                  (items P)\<rparr>) (items P) w of
             (r, P', w') \<Rightarrow> (r, P', (w', tr @ [Trigger_set (items P)]))
      else (Raises IndexError, P, (w, tr)))"
  by (simp add: DeadlineList_delitem_def list_del_index_def norm_index_explicit recording_set Let_def)

lemma setitem_slice_exact:
  "DeadlineList_setitem (recording h) P (SetSlice sl vs) (w, tr) =
     (case list_set_slice (items P) sl (map (new_item (item_type P)) vs) of
        Returns ys \<Rightarrow>
          (case trigger_set h (P\<lparr>items := ys\<rparr>) (items P) w of
             (r, P', w') \<Rightarrow> (r, P', (w', tr @ [Trigger_set (items P)])))
      | Raises e \<Rightarrow> (Raises ValueError, P, (w, tr)))"
  by (auto simp: DeadlineList_setitem_def recording_set Let_def
           dest: list_set_slice_raises split: outcome.splits)

lemma delitem_slice_exact:
  "DeadlineList_delitem (recording h) P (DelSlice sl) (w, tr) =
     (case list_del_slice (items P) sl of
        Returns ys \<Rightarrow>
          (case trigger_set h (P\<lparr>items := ys\<rparr>) (items P) w of
             (r, P', w') \<Rightarrow> (r, P', (w', tr @ [Trigger_set (items P)])))
      | Raises e \<Rightarrow> (Raises ValueError, P, (w, tr)))"
  by (auto simp: DeadlineList_delitem_def recording_set Let_def
           dest: list_del_slice_raises split: outcome.splits)

lemma insert_exact:
  "DeadlineList_insert (recording h) P i x (w, tr) =
     (if - (2 ^ 63) \<le> i \<and> i < 2 ^ 63
      then case trigger_set h
                  (P\<lparr>items :=
                      take (nat (if i < 0 then max 0 (i + int (length (items P)))
                                 else min i (int (length (items P))))) (items P)
                      @ new_item (item_type P) x
                      # drop (nat (if i < 0 then max 0 (i + int (length (items P)))
                                   else min i (int (length (items P))))) (items P)\<rparr>) (items P) w of
             (r, P', w') \<Rightarrow> (r, P', (w', tr @ [Trigger_set (items P)]))
      else (Raises OverflowError, P, (w, tr)))"
  by (simp add: DeadlineList_insert_def list_insert_explicit recording_set Let_def)

lemma pop_exact:
  "DeadlineList_pop (recording h) P i (w, tr) =
     (if \<not> (- (2 ^ 63) \<le> i \<and> i < 2 ^ 63) then (Raises OverflowError, P, (w, tr))
      else if - int (length (items P)) \<le> i \<and> i < int (length (items P))
      then case trigger_set h
                  (P\<lparr>items := take (nat (if i < 0 then i + int (length (items P)) else i)) (items P)
                              @ drop (Suc (nat (if i < 0 then i + int (length (items P)) else i)))
                                  (items P)\<rparr>) (items P) w of
             (Returns u, P', w') \<Rightarrow>
               (Returns (items P ! nat (if i < 0 then i + int (length (items P)) else i)), P',
                (w', tr @ [Trigger_set (items P)]))
           | (Raises e, P', w') \<Rightarrow> (Raises e, P', (w', tr @ [Trigger_set (items P)]))
      else (Raises IndexError, P, (w, tr)))"
  by (simp add: DeadlineList_pop_def list_pop_explicit recording_set Let_def
           split: prod.splits outcome.splits)

text \<open>
  C1. Every method that changes the elements of a proxy makes its change first and then
  runs exactly one of the three hooks, whatever the hooks do; a call that raises in the
  list operation runs no hook and leaves the proxy and everything else as they were.
  \<open>xs\<close> are the elements before the call, \<open>T\<close> is the element class, and \<open>log c\<close>
  appends the hook call \<open>c\<close> to the calls recorded so far.
  \<^item> \<open>append(x)\<close> runs \<open>trigger_add(T(x))\<close> on the proxy that holds \<open>xs\<close> followed by \<open>T(x)\<close>.
  \<^item> \<open>remove(x)\<close> runs \<open>trigger_remove(x)\<close> on the proxy without the first element equal
    to \<open>T(x)\<close>; without such an element it raises \<open>ValueError\<close>.
  \<^item> \<open>P[i] = x\<close> and \<open>del P[i]\<close> run \<open>trigger_set(xs)\<close> on the proxy with position \<open>i\<close>
    (counted from the end when negative) replaced by \<open>T(x)\<close> or taken out; out of
    range they raise \<open>IndexError\<close>.
  \<^item> \<open>P[lo:hi:st] = vs\<close> and \<open>del P[lo:hi:st]\<close> raise \<open>ValueError\<close> for a zero step; with
    no step or step 1 they run \<open>trigger_set(xs)\<close> on the proxy whose range from \<open>a\<close> to
    \<open>max a b\<close> is replaced by the new elements or taken out; with any other step they run
    \<open>trigger_set(xs)\<close> on the proxy as the list operation leaves it, the assignment
    raising \<open>ValueError\<close> when the lengths differ and the deletion never raising.
  \<^item> \<open>insert(i, x)\<close> runs \<open>trigger_set(xs)\<close> on the proxy with \<open>T(x)\<close> put in at position
    \<open>j\<close>; an index that does not fit a machine integer raises \<open>OverflowError\<close>.
  \<^item> \<open>pop(i)\<close> runs \<open>trigger_set(xs)\<close> on the proxy without position \<open>i\<close> and returns the
    element that was there; it raises \<open>OverflowError\<close> or \<open>IndexError\<close> otherwise.
  \<^item> With DeadlineList's own hooks, \<open>P[:] = [a, b, c]\<close> returns with the elements
    \<open>[T(a), T(b), T(c)]\<close> and one recorded \<open>trigger_set(xs)\<close>, and \<open>append(x)\<close> returns with
    \<open>T(x)\<close> last and one recorded \<open>trigger_add(T(x))\<close>.
\<close>

theorem DeadlineList_one_hook_per_mutation:
  "(let xs = items P;
        n = int (length xs);
        T = new_item (item_type P);
        is_x = (\<lambda>e. DeadlineItem_eq e (AItem (T x)));
        k = nat (if i < 0 then i + n else i);
        j = nat (if i < 0 then max 0 (i + n) else min i n);
        a = nat (case lo of None \<Rightarrow> 0 | Some v \<Rightarrow> if v < 0 then max 0 (v + n) else min v n);
        b = nat (case hi of None \<Rightarrow> n | Some v \<Rightarrow> if v < 0 then max 0 (v + n) else min v n);
        log = (\<lambda>c res. case res of (r, P', w') \<Rightarrow> (r, P', (w', tr @ [c])))
    in
      DeadlineList_append (recording h) P x (w, tr)
        = log (Trigger_add (T x)) (trigger_add h (P\<lparr>items := xs @ [T x]\<rparr>) (T x) w)
    \<and> DeadlineList_remove (recording h) P x (w, tr)
        = (if \<exists>e\<in>set xs. is_x e
           then log (Trigger_remove x)
                  (trigger_remove h
                     (P\<lparr>items := takeWhile (\<lambda>e. \<not> is_x e) xs @ tl (dropWhile (\<lambda>e. \<not> is_x e) xs)\<rparr>)
                     x w)
           else (Raises ValueError, P, (w, tr)))
    \<and> DeadlineList_setitem (recording h) P (SetIndex i x) (w, tr)
        = (if - n \<le> i \<and> i < n
           then log (Trigger_set xs) (trigger_set h (P\<lparr>items := xs[k := T x]\<rparr>) xs w)
           else (Raises IndexError, P, (w, tr)))
    \<and> DeadlineList_setitem (recording h) P (SetSlice (Slice lo hi st) vs) (w, tr)
        = (if st = Some 0 then (Raises ValueError, P, (w, tr))
           else if st = None \<or> st = Some 1
           then log (Trigger_set xs)
                  (trigger_set h (P\<lparr>items := take a xs @ map T vs @ drop (max a b) xs\<rparr>) xs w)
           else case list_set_slice xs (Slice lo hi st) (map T vs) of
                  Returns ys \<Rightarrow> log (Trigger_set xs) (trigger_set h (P\<lparr>items := ys\<rparr>) xs w)
                | Raises e \<Rightarrow> (Raises ValueError, P, (w, tr)))
    \<and> DeadlineList_delitem (recording h) P (DelIndex i) (w, tr)
        = (if - n \<le> i \<and> i < n
           then log (Trigger_set xs)
                  (trigger_set h (P\<lparr>items := take k xs @ drop (Suc k) xs\<rparr>) xs w)
           else (Raises IndexError, P, (w, tr)))
    \<and> DeadlineList_delitem (recording h) P (DelSlice (Slice lo hi st)) (w, tr)
        = (if st = Some 0 then (Raises ValueError, P, (w, tr))
           else if st = None \<or> st = Some 1
           then log (Trigger_set xs)
                  (trigger_set h (P\<lparr>items := take a xs @ drop (max a b) xs\<rparr>) xs w)
           else case list_del_slice xs (Slice lo hi st) of
                  Returns ys \<Rightarrow> log (Trigger_set xs) (trigger_set h (P\<lparr>items := ys\<rparr>) xs w)
                | Raises e \<Rightarrow> (Raises ValueError, P, (w, tr)))
    \<and> (\<exists>ys. list_del_slice xs (Slice lo hi st) = Returns ys) = (st \<noteq> Some 0)
    \<and> DeadlineList_insert (recording h) P i x (w, tr)
        = (if - (2 ^ 63) \<le> i \<and> i < 2 ^ 63
           then log (Trigger_set xs)
                  (trigger_set h (P\<lparr>items := take j xs @ T x # drop j xs\<rparr>) xs w)
           else (Raises OverflowError, P, (w, tr)))
    \<and> DeadlineList_pop (recording h) P i (w, tr)
        = (if \<not> (- (2 ^ 63) \<le> i \<and> i < 2 ^ 63) then (Raises OverflowError, P, (w, tr))
           else if - n \<le> i \<and> i < n
           then case trigger_set h (P\<lparr>items := take k xs @ drop (Suc k) xs\<rparr>) xs w of
                  (Returns u, P', w') \<Rightarrow> (Returns (xs ! k), P', (w', tr @ [Trigger_set xs]))
                | (Raises e, P', w') \<Rightarrow> (Raises e, P', (w', tr @ [Trigger_set xs]))
           else (Raises IndexError, P, (w, tr)))
    \<and> DeadlineList_setitem (recording DeadlineList_hooks) P
          (SetSlice (Slice None None None) [va, vb, vc]) (w, tr)
        = (Returns (), P\<lparr>items := [T va, T vb, T vc]\<rparr>, (w, tr @ [Trigger_set xs]))
    \<and> DeadlineList_append (recording DeadlineList_hooks) P x (w, tr)
        = (Returns (), P\<lparr>items := xs @ [T x]\<rparr>, (w, tr @ [Trigger_add (T x)])))"
proof -
  have set_slice: "DeadlineList_setitem (recording h) P (SetSlice (Slice lo hi st) vs) (w, tr)
        = (if st = Some 0 then (Raises ValueError, P, (w, tr))
           else if st = None \<or> st = Some 1
           then case trigger_set h
                       (P\<lparr>items :=
                           take (nat (case lo of None \<Rightarrow> 0
                                      | Some v \<Rightarrow> if v < 0 then max 0 (v + int (length (items P)))
                                                  else min v (int (length (items P))))) (items P)
                           @ map (new_item (item_type P)) vs
                           @ drop (max (nat (case lo of None \<Rightarrow> 0
                                             | Some v \<Rightarrow>
                                                 if v < 0 then max 0 (v + int (length (items P)))
                                                 else min v (int (length (items P)))))
                                       (nat (case hi of None \<Rightarrow> int (length (items P))
                                             | Some v \<Rightarrow>
                                                 if v < 0 then max 0 (v + int (length (items P)))
                                                 else min v (int (length (items P))))))
                               (items P)\<rparr>) (items P) w of
                  (r, P', w') \<Rightarrow> (r, P', (w', tr @ [Trigger_set (items P)]))
           else case list_set_slice (items P) (Slice lo hi st) (map (new_item (item_type P)) vs) of
                  Returns ys \<Rightarrow>
                    (case trigger_set h (P\<lparr>items := ys\<rparr>) (items P) w of
                       (r, P', w') \<Rightarrow> (r, P', (w', tr @ [Trigger_set (items P)])))
                | Raises e \<Rightarrow> (Raises ValueError, P, (w, tr)))"
    for h :: "('a, 'b) hooks" and lo hi st vs
  proof (cases "st = Some 0")
    case True
    then have "list_set_slice (items P) (Slice lo hi st) (map (new_item (item_type P)) vs)
                 = Raises ValueError"
      by (simp add: list_set_slice_def)
    with True show ?thesis
      by (simp add: setitem_slice_exact)
  next
    case False
    show ?thesis
    proof (cases "st = None \<or> st = Some 1")
      case True
      with False show ?thesis
        by (simp only: setitem_slice_exact list_set_slice_step_1 [OF True] outcome.case if_True
              if_False)
    next
      case step: False
      with False show ?thesis
        by (simp only: setitem_slice_exact if_False)
    qed
  qed
  have del_slice: "DeadlineList_delitem (recording h) P (DelSlice (Slice lo hi st)) (w, tr)
        = (if st = Some 0 then (Raises ValueError, P, (w, tr))
           else if st = None \<or> st = Some 1
           then case trigger_set h
                       (P\<lparr>items :=
                           take (nat (case lo of None \<Rightarrow> 0
                                      | Some v \<Rightarrow> if v < 0 then max 0 (v + int (length (items P)))
                                                  else min v (int (length (items P))))) (items P)
                           @ drop (max (nat (case lo of None \<Rightarrow> 0
                                             | Some v \<Rightarrow>
                                                 if v < 0 then max 0 (v + int (length (items P)))
                                                 else min v (int (length (items P)))))
                                       (nat (case hi of None \<Rightarrow> int (length (items P))
                                             | Some v \<Rightarrow>
                                                 if v < 0 then max 0 (v + int (length (items P)))
                                                 else min v (int (length (items P))))))
                               (items P)\<rparr>) (items P) w of
                  (r, P', w') \<Rightarrow> (r, P', (w', tr @ [Trigger_set (items P)]))
           else case list_del_slice (items P) (Slice lo hi st) of
                  Returns ys \<Rightarrow>
                    (case trigger_set h (P\<lparr>items := ys\<rparr>) (items P) w of
                       (r, P', w') \<Rightarrow> (r, P', (w', tr @ [Trigger_set (items P)])))
                | Raises e \<Rightarrow> (Raises ValueError, P, (w, tr)))"
  proof (cases "st = Some 0")
    case True
    then have "list_del_slice (items P) (Slice lo hi st) = Raises ValueError"
      by (simp add: list_del_slice_def)
    with True show ?thesis
      by (simp add: delitem_slice_exact)
  next
    case False
    show ?thesis
    proof (cases "st = None \<or> st = Some 1")
      case True
      with False show ?thesis
        by (simp only: delitem_slice_exact list_del_slice_step_1 [OF True] outcome.case if_True
              if_False)
    next
      case step: False
      with False show ?thesis
        by (simp only: delitem_slice_exact if_False)
    qed
  qed
  have full: "DeadlineList_setitem (recording DeadlineList_hooks) P
          (SetSlice (Slice None None None) [va, vb, vc]) (w, tr)
        = (Returns (),
           P\<lparr>items := [new_item (item_type P) va, new_item (item_type P) vb,
                        new_item (item_type P) vc]\<rparr>,
           (w, tr @ [Trigger_set (items P)]))"
    by (simp add: set_slice [of DeadlineList_hooks None None None])
  have app: "DeadlineList_append (recording DeadlineList_hooks) P x (w, tr)
        = (Returns (), P\<lparr>items := items P @ [new_item (item_type P) x]\<rparr>,
           (w, tr @ [Trigger_add (new_item (item_type P) x)]))"
    by (simp add: append_exact)
  show ?thesis
    unfolding Let_def
    by (intro conjI)
       (rule append_exact remove_exact setitem_index_exact set_slice delitem_index_exact del_slice
          list_del_slice_returns insert_exact pop_exact full app)+
qed

theorem DeadlineList_one_hook_per_mutation_witness:
  "DeadlineList_append (recording DeadlineList_hooks) (pool_proxy [''a'', ''b'', ''c'', ''d'', ''e''])
       (AStr ''x'') ((), [])
     = (Returns (), pool_proxy [''a'', ''b'', ''c'', ''d'', ''e'', ''x''],
        ((), [Trigger_add (new_item PoolT (AStr ''x''))]))
   \<and> DeadlineList_remove (recording DeadlineList_hooks)
         (pool_proxy [''a'', ''b'', ''c'', ''d'', ''C'']) (AStr ''C'') ((), [])
     = (Returns (), pool_proxy [''a'', ''b'', ''d'', ''C''], ((), [Trigger_remove (AStr ''C'')]))
   \<and> DeadlineList_remove (recording DeadlineList_hooks)
         (pool_proxy [''a'', ''b'', ''c'', ''d'', ''e'']) (AStr ''q'') ((), [])
     = (Raises ValueError, pool_proxy [''a'', ''b'', ''c'', ''d'', ''e''], ((), []))
   \<and> DeadlineList_setitem (recording DeadlineList_hooks)
         (pool_proxy [''a'', ''b'', ''c'', ''d'', ''e'']) (SetIndex (- 5) (AStr ''x'')) ((), [])
     = (Returns (), pool_proxy [''x'', ''b'', ''c'', ''d'', ''e''],
        ((), [Trigger_set (items (pool_proxy [''a'', ''b'', ''c'', ''d'', ''e'']))]))
   \<and> DeadlineList_setitem (recording DeadlineList_hooks)
         (pool_proxy [''a'', ''b'', ''c'', ''d'', ''e'']) (SetIndex 5 (AStr ''x'')) ((), [])
     = (Raises IndexError, pool_proxy [''a'', ''b'', ''c'', ''d'', ''e''], ((), []))
   \<and> DeadlineList_setitem (recording DeadlineList_hooks)
         (pool_proxy [''a'', ''b'', ''c'', ''d'', ''e''])
         (SetSlice (Slice (Some 3) (Some 1) None) [AStr ''x'']) ((), [])
     = (Returns (), pool_proxy [''a'', ''b'', ''c'', ''x'', ''d'', ''e''],
        ((), [Trigger_set (items (pool_proxy [''a'', ''b'', ''c'', ''d'', ''e'']))]))
   \<and> DeadlineList_setitem (recording DeadlineList_hooks)
         (pool_proxy [''a'', ''b'', ''c'', ''d'', ''e''])
         (SetSlice (Slice None None (Some 2)) [AStr ''x'', AStr ''y'', AStr ''z'']) ((), [])
     = (Returns (), pool_proxy [''x'', ''b'', ''y'', ''d'', ''z''],
        ((), [Trigger_set (items (pool_proxy [''a'', ''b'', ''c'', ''d'', ''e'']))]))
   \<and> DeadlineList_setitem (recording DeadlineList_hooks)
         (pool_proxy [''a'', ''b'', ''c'', ''d'', ''e''])
         (SetSlice (Slice None None (Some (- 2))) [AStr ''x'', AStr ''y'', AStr ''z'']) ((), [])
     = (Returns (), pool_proxy [''z'', ''b'', ''y'', ''d'', ''x''],
        ((), [Trigger_set (items (pool_proxy [''a'', ''b'', ''c'', ''d'', ''e'']))]))
   \<and> DeadlineList_setitem (recording DeadlineList_hooks)
         (pool_proxy [''a'', ''b'', ''c'', ''d'', ''e''])
         (SetSlice (Slice None None (Some 2)) [AStr ''x'']) ((), [])
     = (Raises ValueError, pool_proxy [''a'', ''b'', ''c'', ''d'', ''e''], ((), []))
   \<and> DeadlineList_setitem (recording DeadlineList_hooks)
         (pool_proxy [''a'', ''b'', ''c'', ''d'', ''e''])
         (SetSlice (Slice None None (Some 0)) []) ((), [])
     = (Raises ValueError, pool_proxy [''a'', ''b'', ''c'', ''d'', ''e''], ((), []))
   \<and> DeadlineList_delitem (recording DeadlineList_hooks)
         (pool_proxy [''a'', ''b'', ''c'', ''d'', ''e'']) (DelIndex (- 1)) ((), [])
     = (Returns (), pool_proxy [''a'', ''b'', ''c'', ''d''],
        ((), [Trigger_set (items (pool_proxy [''a'', ''b'', ''c'', ''d'', ''e'']))]))
   \<and> DeadlineList_delitem (recording DeadlineList_hooks)
         (pool_proxy [''a'', ''b'', ''c'', ''d'', ''e'']) (DelSlice (Slice (Some 1) None (Some 2)))
         ((), [])
     = (Returns (), pool_proxy [''a'', ''c'', ''e''],
        ((), [Trigger_set (items (pool_proxy [''a'', ''b'', ''c'', ''d'', ''e'']))]))
   \<and> DeadlineList_delitem (recording DeadlineList_hooks)
         (pool_proxy [''a'', ''b'', ''c'', ''d'', ''e''])
         (DelSlice (Slice (Some 4) (Some 1) (Some (- 1)))) ((), [])
     = (Returns (), pool_proxy [''a'', ''b''],
        ((), [Trigger_set (items (pool_proxy [''a'', ''b'', ''c'', ''d'', ''e'']))]))
   \<and> DeadlineList_delitem (recording DeadlineList_hooks)
         (pool_proxy [''a'', ''b'', ''c'', ''d'', ''e'']) (DelSlice (Slice (Some (- 2)) None None))
         ((), [])
     = (Returns (), pool_proxy [''a'', ''b'', ''c''],
        ((), [Trigger_set (items (pool_proxy [''a'', ''b'', ''c'', ''d'', ''e'']))]))
   \<and> DeadlineList_delitem (recording DeadlineList_hooks)
         (pool_proxy [''a'', ''b'', ''c'', ''d'', ''e''])
         (DelSlice (Slice (Some 9) (Some (- 9)) (Some (- 2)))) ((), [])
     = (Returns (), pool_proxy [''b'', ''d''],
        ((), [Trigger_set (items (pool_proxy [''a'', ''b'', ''c'', ''d'', ''e'']))]))
   \<and> DeadlineList_setitem (recording DeadlineList_hooks)
         (pool_proxy [''a'', ''b'', ''c'', ''d'', ''e''])
         (SetSlice (Slice (Some (- 9)) (Some 9) (Some 3)) [AStr ''x'', AStr ''y'']) ((), [])
     = (Returns (), pool_proxy [''x'', ''b'', ''c'', ''y'', ''e''],
        ((), [Trigger_set (items (pool_proxy [''a'', ''b'', ''c'', ''d'', ''e'']))]))
   \<and> DeadlineList_insert (recording DeadlineList_hooks)
         (pool_proxy [''a'', ''b'', ''c'', ''d'', ''e'']) (- 1) (AStr ''x'') ((), [])
     = (Returns (), pool_proxy [''a'', ''b'', ''c'', ''d'', ''x'', ''e''],
        ((), [Trigger_set (items (pool_proxy [''a'', ''b'', ''c'', ''d'', ''e'']))]))
   \<and> DeadlineList_insert (recording DeadlineList_hooks)
         (pool_proxy [''a'', ''b'', ''c'', ''d'', ''e'']) (2 ^ 63 - 1) (AStr ''x'') ((), [])
     = (Returns (), pool_proxy [''a'', ''b'', ''c'', ''d'', ''e'', ''x''],
        ((), [Trigger_set (items (pool_proxy [''a'', ''b'', ''c'', ''d'', ''e'']))]))
   \<and> DeadlineList_insert (recording DeadlineList_hooks)
         (pool_proxy [''a'', ''b'', ''c'', ''d'', ''e'']) (2 ^ 64) (AStr ''x'') ((), [])
     = (Raises OverflowError, pool_proxy [''a'', ''b'', ''c'', ''d'', ''e''], ((), []))
   \<and> DeadlineList_pop (recording DeadlineList_hooks)
         (pool_proxy [''a'', ''b'', ''c'', ''d'', ''e'']) (- 1) ((), [])
     = (Returns (new_item PoolT (AStr ''e'')), pool_proxy [''a'', ''b'', ''c'', ''d''],
        ((), [Trigger_set (items (pool_proxy [''a'', ''b'', ''c'', ''d'', ''e'']))]))
   \<and> DeadlineList_pop (recording DeadlineList_hooks)
         (pool_proxy [''a'', ''b'', ''c'', ''d'', ''e'']) 5 ((), [])
     = (Raises IndexError, pool_proxy [''a'', ''b'', ''c'', ''d'', ''e''], ((), []))
   \<and> DeadlineList_pop (recording DeadlineList_hooks)
         (pool_proxy [''a'', ''b'', ''c'', ''d'', ''e'']) (- (2 ^ 63) - 1) ((), [])
     = (Raises OverflowError, pool_proxy [''a'', ''b'', ''c'', ''d'', ''e''], ((), []))
   \<and> DeadlineList_setitem (recording DeadlineList_hooks)
         (pool_proxy [''a'', ''b'', ''c'', ''d'', ''e''])
         (SetSlice (Slice None None None) [AStr ''x'', AStr ''y'', AStr ''z'']) ((), [])
     = (Returns (), pool_proxy [''x'', ''y'', ''z''],
        ((), [Trigger_set (items (pool_proxy [''a'', ''b'', ''c'', ''d'', ''e'']))]))"
proof -
  let ?P = "pool_proxy [''a'', ''b'', ''c'', ''d'', ''e'']"
  let ?R = "pool_proxy [''a'', ''b'', ''c'', ''d'', ''C'']"
  let ?h = "DeadlineList_hooks :: (unit, unit) hooks"
  note T = DeadlineList_one_hook_per_mutation [unfolded Let_def]
  note P = T [where h = ?h and P = ?P and w = "()" and tr = "[]"]
  note R = T [where h = ?h and P = ?R and w = "()" and tr = "[]"]
  note c1 = conjunct1
  note c2 = conjunct2 [THEN conjunct1]
  note c3 = conjunct2 [THEN conjunct2, THEN conjunct1]
  note c4 = conjunct2 [THEN conjunct2, THEN conjunct2, THEN conjunct1]
  note c5 = conjunct2 [THEN conjunct2, THEN conjunct2, THEN conjunct2, THEN conjunct1]
  note c6 = conjunct2 [THEN conjunct2, THEN conjunct2, THEN conjunct2, THEN conjunct2,
                THEN conjunct1]
  note c8 = conjunct2 [THEN conjunct2, THEN conjunct2, THEN conjunct2, THEN conjunct2,
                THEN conjunct2, THEN conjunct2, THEN conjunct1]
  note c9 = conjunct2 [THEN conjunct2, THEN conjunct2, THEN conjunct2, THEN conjunct2,
                THEN conjunct2, THEN conjunct2, THEN conjunct2, THEN conjunct1]
  note c10 = conjunct2 [THEN conjunct2, THEN conjunct2, THEN conjunct2, THEN conjunct2,
                THEN conjunct2, THEN conjunct2, THEN conjunct2, THEN conjunct2, THEN conjunct1]
  show ?thesis
  proof (intro conjI)
    show "DeadlineList_append (recording DeadlineList_hooks) ?P (AStr ''x'') ((), [])
            = (Returns (), pool_proxy [''a'', ''b'', ''c'', ''d'', ''e'', ''x''],
               ((), [Trigger_add (new_item PoolT (AStr ''x''))]))"
      by (rule trans [OF P [where x = "AStr ''x''", THEN c1]]) code_simp
    show "DeadlineList_remove (recording DeadlineList_hooks) ?R (AStr ''C'') ((), [])
            = (Returns (), pool_proxy [''a'', ''b'', ''d'', ''C''],
               ((), [Trigger_remove (AStr ''C'')]))"
      by (rule trans [OF R [where x = "AStr ''C''", THEN c2]]) code_simp
    show "DeadlineList_remove (recording DeadlineList_hooks) ?P (AStr ''q'') ((), [])
            = (Raises ValueError, ?P, ((), []))"
      by (rule trans [OF P [where x = "AStr ''q''", THEN c2]]) code_simp
    show "DeadlineList_setitem (recording DeadlineList_hooks) ?P (SetIndex (- 5) (AStr ''x'')) ((), [])
            = (Returns (), pool_proxy [''x'', ''b'', ''c'', ''d'', ''e''],
               ((), [Trigger_set (items ?P)]))"
      by (rule trans [OF P [where x = "AStr ''x''" and i = "- 5", THEN c3]]) code_simp
    show "DeadlineList_setitem (recording DeadlineList_hooks) ?P (SetIndex 5 (AStr ''x'')) ((), [])
            = (Raises IndexError, ?P, ((), []))"
      by (rule trans [OF P [where x = "AStr ''x''" and i = 5, THEN c3]]) code_simp
    show "DeadlineList_setitem (recording DeadlineList_hooks) ?P
            (SetSlice (Slice (Some 3) (Some 1) None) [AStr ''x'']) ((), [])
            = (Returns (), pool_proxy [''a'', ''b'', ''c'', ''x'', ''d'', ''e''],
               ((), [Trigger_set (items ?P)]))"
      by (rule trans [OF P [where x = "AStr ''x''" and lo = "Some 3" and hi = "Some 1"
                              and st = None and vs = "[AStr ''x'']", THEN c4]]) code_simp
    show "DeadlineList_setitem (recording DeadlineList_hooks) ?P
            (SetSlice (Slice None None (Some 2)) [AStr ''x'', AStr ''y'', AStr ''z'']) ((), [])
            = (Returns (), pool_proxy [''x'', ''b'', ''y'', ''d'', ''z''],
               ((), [Trigger_set (items ?P)]))"
      by (rule trans [OF P [where x = "AStr ''x''" and lo = None and hi = None
                              and st = "Some 2" and vs = "[AStr ''x'', AStr ''y'', AStr ''z'']",
                            THEN c4]]) code_simp
    show "DeadlineList_setitem (recording DeadlineList_hooks) ?P
            (SetSlice (Slice None None (Some (- 2))) [AStr ''x'', AStr ''y'', AStr ''z'']) ((), [])
            = (Returns (), pool_proxy [''z'', ''b'', ''y'', ''d'', ''x''],
               ((), [Trigger_set (items ?P)]))"
      by (rule trans [OF P [where x = "AStr ''x''" and lo = None and hi = None
                              and st = "Some (- 2)" and vs = "[AStr ''x'', AStr ''y'', AStr ''z'']",
                            THEN c4]]) code_simp
    show "DeadlineList_setitem (recording DeadlineList_hooks) ?P
            (SetSlice (Slice None None (Some 2)) [AStr ''x'']) ((), [])
            = (Raises ValueError, ?P, ((), []))"
      by (rule trans [OF P [where x = "AStr ''x''" and lo = None and hi = None
                              and st = "Some 2" and vs = "[AStr ''x'']", THEN c4]]) code_simp
    show "DeadlineList_setitem (recording DeadlineList_hooks) ?P
            (SetSlice (Slice None None (Some 0)) []) ((), [])
            = (Raises ValueError, ?P, ((), []))"
      by (rule trans [OF P [where x = "AStr ''x''" and lo = None and hi = None
                              and st = "Some 0" and vs = "[]", THEN c4]]) code_simp
    show "DeadlineList_delitem (recording DeadlineList_hooks) ?P (DelIndex (- 1)) ((), [])
            = (Returns (), pool_proxy [''a'', ''b'', ''c'', ''d''], ((), [Trigger_set (items ?P)]))"
      by (rule trans [OF P [where i = "- 1", THEN c5]]) code_simp
    show "DeadlineList_delitem (recording DeadlineList_hooks) ?P
            (DelSlice (Slice (Some 1) None (Some 2))) ((), [])
            = (Returns (), pool_proxy [''a'', ''c'', ''e''], ((), [Trigger_set (items ?P)]))"
      by (rule trans [OF P [where lo = "Some 1" and hi = None and st = "Some 2", THEN c6]])
         code_simp
    show "DeadlineList_delitem (recording DeadlineList_hooks) ?P
            (DelSlice (Slice (Some 4) (Some 1) (Some (- 1)))) ((), [])
            = (Returns (), pool_proxy [''a'', ''b''], ((), [Trigger_set (items ?P)]))"
      by (rule trans [OF P [where lo = "Some 4" and hi = "Some 1" and st = "Some (- 1)", THEN c6]])
         code_simp
    show "DeadlineList_delitem (recording DeadlineList_hooks) ?P
            (DelSlice (Slice (Some (- 2)) None None)) ((), [])
            = (Returns (), pool_proxy [''a'', ''b'', ''c''], ((), [Trigger_set (items ?P)]))"
      by (rule trans [OF P [where lo = "Some (- 2)" and hi = None and st = None, THEN c6]])
         code_simp
    show "DeadlineList_delitem (recording DeadlineList_hooks) ?P
            (DelSlice (Slice (Some 9) (Some (- 9)) (Some (- 2)))) ((), [])
            = (Returns (), pool_proxy [''b'', ''d''], ((), [Trigger_set (items ?P)]))"
      by (rule trans [OF P [where lo = "Some 9" and hi = "Some (- 9)" and st = "Some (- 2)",
                            THEN c6]])
         code_simp
    show "DeadlineList_setitem (recording DeadlineList_hooks) ?P
            (SetSlice (Slice (Some (- 9)) (Some 9) (Some 3)) [AStr ''x'', AStr ''y'']) ((), [])
            = (Returns (), pool_proxy [''x'', ''b'', ''c'', ''y'', ''e''],
               ((), [Trigger_set (items ?P)]))"
      by (rule trans [OF P [where x = "AStr ''x''" and lo = "Some (- 9)" and hi = "Some 9"
                              and st = "Some 3" and vs = "[AStr ''x'', AStr ''y'']", THEN c4]])
         code_simp
    show "DeadlineList_insert (recording DeadlineList_hooks) ?P (- 1) (AStr ''x'') ((), [])
            = (Returns (), pool_proxy [''a'', ''b'', ''c'', ''d'', ''x'', ''e''],
               ((), [Trigger_set (items ?P)]))"
      by (rule trans [OF P [where x = "AStr ''x''" and i = "- 1", THEN c8]]) code_simp
    show "DeadlineList_insert (recording DeadlineList_hooks) ?P (2 ^ 63 - 1) (AStr ''x'') ((), [])
            = (Returns (), pool_proxy [''a'', ''b'', ''c'', ''d'', ''e'', ''x''],
               ((), [Trigger_set (items ?P)]))"
      by (rule trans [OF P [where x = "AStr ''x''" and i = "2 ^ 63 - 1", THEN c8]]) code_simp
    show "DeadlineList_insert (recording DeadlineList_hooks) ?P (2 ^ 64) (AStr ''x'') ((), [])
            = (Raises OverflowError, ?P, ((), []))"
      by (rule trans [OF P [where x = "AStr ''x''" and i = "2 ^ 64", THEN c8]]) code_simp
    show "DeadlineList_pop (recording DeadlineList_hooks) ?P (- 1) ((), [])
            = (Returns (new_item PoolT (AStr ''e'')), pool_proxy [''a'', ''b'', ''c'', ''d''],
               ((), [Trigger_set (items ?P)]))"
      by (rule trans [OF P [where i = "- 1", THEN c9]]) code_simp
    show "DeadlineList_pop (recording DeadlineList_hooks) ?P 5 ((), [])
            = (Raises IndexError, ?P, ((), []))"
      by (rule trans [OF P [where i = 5, THEN c9]]) code_simp
    show "DeadlineList_pop (recording DeadlineList_hooks) ?P (- (2 ^ 63) - 1) ((), [])
            = (Raises OverflowError, ?P, ((), []))"
      by (rule trans [OF P [where i = "- (2 ^ 63) - 1", THEN c9]]) code_simp
    show "DeadlineList_setitem (recording DeadlineList_hooks) ?P
            (SetSlice (Slice None None None) [AStr ''x'', AStr ''y'', AStr ''z'']) ((), [])
            = (Returns (), pool_proxy [''x'', ''y'', ''z''], ((), [Trigger_set (items ?P)]))"
      by (rule trans [OF P [where va = "AStr ''x''" and vb = "AStr ''y''" and vc = "AStr ''z''",
                            THEN c10]]) code_simp
  qed
qed

lemma list_remove_absent:
  "\<not> (\<exists>e\<in>set xs. eq e) \<Longrightarrow> list_remove eq xs = Raises ValueError"
  by (induction xs) auto

lemma list_remove_present:
  "\<exists>e\<in>set xs. eq e \<Longrightarrow>
   \<exists>k<length xs. eq (xs ! k) \<and> (\<forall>j<k. \<not> eq (xs ! j)) \<and>
      list_remove eq xs = Returns (take k xs @ drop (Suc k) xs)"
proof (induction xs)
  case Nil
  then show ?case by simp
next
  case (Cons e es)
  show ?case
  proof (cases "eq e")
    case True
    then have "eq ((e # es) ! 0) \<and> (\<forall>j<0. \<not> eq ((e # es) ! j)) \<and>
      list_remove eq (e # es) = Returns (take 0 (e # es) @ drop (Suc 0) (e # es))"
      by simp
    then show ?thesis by blast
  next
    case False
    with Cons.prems have "\<exists>e\<in>set es. eq e" by simp
    from Cons.IH [OF this] obtain k where k: "k < length es" "eq (es ! k)"
      "\<forall>j<k. \<not> eq (es ! j)" "list_remove eq es = Returns (take k es @ drop (Suc k) es)"
      by blast
    have "\<forall>j<Suc k. \<not> eq ((e # es) ! j)"
      using False k(3) by (auto simp: less_Suc_eq_0_disj)
    with k False have "Suc k < length (e # es) \<and> eq ((e # es) ! Suc k) \<and>
      (\<forall>j<Suc k. \<not> eq ((e # es) ! j)) \<and>
      list_remove eq (e # es) = Returns (take (Suc k) (e # es) @ drop (Suc (Suc k)) (e # es))"
      by simp
    then show ?thesis by blast
  qed
qed

text \<open>
  C6. When some element equals \<open>T(x)\<close>, \<open>P.remove(x)\<close> takes out exactly the first
  such element (position \<open>k\<close>, no match before it) and then calls \<open>trigger_remove\<close>
  once, whatever the hooks are; with DeadlineList's own hooks it returns. When no
  element equals \<open>T(x)\<close>, it raises \<open>ValueError\<close>, and the proxy, the outside state and
  the calls made are as before.
\<close>

theorem DeadlineList_remove_first_match:
  "((\<exists>e\<in>set (items P). DeadlineItem_eq e (AItem (new_item (item_type P) x))) \<longrightarrow>
      (\<exists>k<length (items P).
          DeadlineItem_eq (items P ! k) (AItem (new_item (item_type P) x)) \<and>
          (\<forall>j<k. \<not> DeadlineItem_eq (items P ! j) (AItem (new_item (item_type P) x))) \<and>
          DeadlineList_remove (recording h) P x (w, tr) =
            (case trigger_remove h (P\<lparr>items := take k (items P) @ drop (Suc k) (items P)\<rparr>) x w of
               (r, P', w') \<Rightarrow> (r, P', (w', tr @ [Trigger_remove x]))) \<and>
          DeadlineList_remove (recording DeadlineList_hooks) P x (w, tr) =
            (Returns (), P\<lparr>items := take k (items P) @ drop (Suc k) (items P)\<rparr>,
             (w, tr @ [Trigger_remove x]))))
   \<and> (\<not> (\<exists>e\<in>set (items P). DeadlineItem_eq e (AItem (new_item (item_type P) x))) \<longrightarrow>
        DeadlineList_remove (recording h) P x (w, tr) = (Raises ValueError, P, (w, tr)))"
proof (intro conjI impI)
  let ?eq = "\<lambda>e. DeadlineItem_eq e (AItem (new_item (item_type P) x))"
  assume "\<exists>e\<in>set (items P). ?eq e"
  from list_remove_present [of "items P" ?eq, OF this]
  obtain k where k: "k < length (items P)" "?eq (items P ! k)" "\<forall>j<k. \<not> ?eq (items P ! j)"
     "list_remove ?eq (items P) = Returns (take k (items P) @ drop (Suc k) (items P))"
    by blast
  have 1: "DeadlineList_remove (recording h) P x (w, tr) =
            (case trigger_remove h (P\<lparr>items := take k (items P) @ drop (Suc k) (items P)\<rparr>) x w of
               (r, P', w') \<Rightarrow> (r, P', (w', tr @ [Trigger_remove x])))" for h :: "('a, 'b) hooks"
    by (simp only: DeadlineList_remove_def k(4) outcome.case recording_remove)
  have 2: "DeadlineList_remove (recording DeadlineList_hooks) P x (w, tr) =
            (Returns (), P\<lparr>items := take k (items P) @ drop (Suc k) (items P)\<rparr>,
             (w, tr @ [Trigger_remove x]))"
    by (simp add: 1)
  from k(1,2,3) 1 [of h] 2 show "\<exists>k<length (items P).
          ?eq (items P ! k) \<and> (\<forall>j<k. \<not> ?eq (items P ! j)) \<and>
          DeadlineList_remove (recording h) P x (w, tr) =
            (case trigger_remove h (P\<lparr>items := take k (items P) @ drop (Suc k) (items P)\<rparr>) x w of
               (r, P', w') \<Rightarrow> (r, P', (w', tr @ [Trigger_remove x]))) \<and>
          DeadlineList_remove (recording DeadlineList_hooks) P x (w, tr) =
            (Returns (), P\<lparr>items := take k (items P) @ drop (Suc k) (items P)\<rparr>,
             (w, tr @ [Trigger_remove x]))"
    by blast
next
  let ?eq = "\<lambda>e. DeadlineItem_eq e (AItem (new_item (item_type P) x))"
  assume "\<not> (\<exists>e\<in>set (items P). ?eq e)"
  from list_remove_absent [of "items P" ?eq, OF this]
  show "DeadlineList_remove (recording h) P x (w, tr) = (Raises ValueError, P, (w, tr))"
    by (simp add: DeadlineList_remove_def)
qed

theorem DeadlineList_remove_first_match_witness:
  "(\<exists>e\<in>set (items (DeadlineList_init GroupT () [AStr ''farm'', AStr ''Rose'', AStr ''ROSE''])).
       DeadlineItem_eq e (AItem (new_item GroupT (AStr ''rose''))))
   \<and> DeadlineList_remove (recording DeadlineList_hooks)
        (DeadlineList_init GroupT () [AStr ''farm'', AStr ''Rose'', AStr ''ROSE''])
        (AStr ''rose'') ((), [])
      = (Returns (), DeadlineList_init GroupT () [AStr ''farm'', AStr ''ROSE''],
         ((), [Trigger_remove (AStr ''rose'')]))
   \<and> \<not> (\<exists>e\<in>set (items (DeadlineList_init GroupT () [AStr ''farm''])).
       DeadlineItem_eq e (AItem (new_item GroupT (AStr ''rose''))))
   \<and> DeadlineList_remove (recording DeadlineList_hooks)
        (DeadlineList_init GroupT () [AStr ''farm'']) (AStr ''rose'') ((), [])
      = (Raises ValueError, DeadlineList_init GroupT () [AStr ''farm''], ((), []))"
proof -
  let ?P = "DeadlineList_init GroupT () [AStr ''farm'', AStr ''Rose'', AStr ''ROSE'']"
  let ?Q = "DeadlineList_init GroupT () [AStr ''farm'']"
  let ?g = "AItem (new_item GroupT (AStr ''rose''))"
  let ?h = "DeadlineList_hooks :: (unit, unit) hooks"
  have low: "str_lower ''farm'' \<noteq> str_lower ''rose''" "str_lower ''Rose'' = str_lower ''rose''"
    by code_simp+
  have pres: "\<exists>e\<in>set (items ?P). DeadlineItem_eq e ?g"
    using low by (simp add: new_item_def)
  have abs: "\<not> (\<exists>e\<in>set (items ?Q). DeadlineItem_eq e ?g)"
    using low by (simp add: new_item_def)
  from DeadlineList_remove_first_match [of ?P "AStr ''rose''" ?h "()" "[]"] pres
  obtain k where k: "k < length (items ?P)" "DeadlineItem_eq (items ?P ! k) ?g"
    "\<forall>j<k. \<not> DeadlineItem_eq (items ?P ! j) ?g"
    "DeadlineList_remove (recording DeadlineList_hooks) ?P (AStr ''rose'') ((), []) =
       (Returns (), ?P\<lparr>items := take k (items ?P) @ drop (Suc k) (items ?P)\<rparr>,
        ((), [] @ [Trigger_remove (AStr ''rose'')]))"
    by (auto simp only: item_type_init)
  have "k = 1"
  proof -
    from k(1) have "k = 0 \<or> k = 1 \<or> k = 2" by auto
    moreover have "k \<noteq> 0"
    proof
      assume "k = 0"
      with k(2) low show False by (simp add: new_item_def)
    qed
    moreover have "k \<noteq> 2"
    proof
      assume "k = 2"
      then have "(1::nat) < k" by simp
      from k(3) [rule_format, OF this] have "\<not> DeadlineItem_eq (items ?P ! 1) ?g" .
      with low show False by (simp add: new_item_def)
    qed
    ultimately show ?thesis by blast
  qed
  with k(4) have r1: "DeadlineList_remove (recording DeadlineList_hooks) ?P (AStr ''rose'') ((), [])
      = (Returns (), DeadlineList_init GroupT () [AStr ''farm'', AStr ''ROSE''],
         ((), [Trigger_remove (AStr ''rose'')]))"
    by (simp add: DeadlineList_init_def)
  from DeadlineList_remove_first_match [of ?Q "AStr ''rose''" ?h "()" "[]"] abs
  have r2: "DeadlineList_remove (recording DeadlineList_hooks) ?Q (AStr ''rose'') ((), [])
              = (Raises ValueError, ?Q, ((), []))"
    by (auto simp only: item_type_init)
  from pres r1 abs r2 show ?thesis by blast
qed

section \<open>Properties of the remote client\<close>

lemma api_lookup_ok [simp]:
  "api_lookup ''Slaves'' ''GetSlaveNamesInGroup'' = Returns ()"
  "api_lookup ''Slaves'' ''GetSlaveNamesInPool'' = Returns ()"
  "api_lookup ''Slaves'' ''GetSlaveInfo'' = Returns ()"
  "api_lookup ''Slaves'' ''GetSlaveSettings'' = Returns ()"
  "api_lookup ''Slaves'' ''SaveSlaveSettings'' = Returns ()"
  "api_lookup ''Slaves'' ''SetGroupsForSlave'' = Returns ()"
  "api_lookup ''Slaves'' ''AddGroupToSlave'' = Returns ()"
  "api_lookup ''Slaves'' ''RemoveGroupFromSlave'' = Returns ()"
  "api_lookup ''Pools'' ''AddPool'' = Returns ()"
  "api_lookup ''Pools'' ''DeletePool'' = Returns ()"
  "api_lookup ''Pools'' ''GetPoolNames'' = Returns ()"
  "api_lookup ''Groups'' ''DeleteGroup'' = Returns ()"
  "api_lookup ''Groups'' ''GetGroupNames'' = Returns ()"
  by (simp_all add: api_lookup_def api_attributes_def api_methods_def)

lemma api_lookup_Group [simp]: "api_lookup ''Group'' m = Raises AttributeError"
  by (simp add: api_lookup_def api_attributes_def)

lemma lookup_Slave_pools [simp]: "lookup_global pools_globals ''Slave'' = Raises NameError"
  by (simp add: lookup_global_def pools_globals_def)

lemma invoke_ok:
  "api_lookup ns m = Returns () \<Longrightarrow>
   invoke ns m c f w =
     (Returns (fst (f (remote w))), w\<lparr>remote := snd (f (remote w)), calls := calls w @ [c]\<rparr>)"
  by (simp add: invoke_def split: prod.splits)

lemma invoke_save:
  "invoke ''Slaves'' ''SaveSlaveSettings'' c f w =
     (Returns (fst (f (remote w))), w\<lparr>remote := snd (f (remote w)), calls := calls w @ [c]\<rparr>)"
  by (simp add: invoke_def split: prod.splits)

lemma answering_save [simp]:
  "Slaves_SaveSlaveSettings (answering_api st) h obj r = (st, r)"
  by (simp add: answering_api_def)

lemma initial_world_fields [simp]:
  "calls (initial_world r) = []"
  "Slave_INFO_CACHE (initial_world r) = (\<lambda>n. NOT_SET)"
  "Slave_SETTINGS_CACHE (initial_world r) = (\<lambda>n. NOT_SET)"
  by (simp_all add: initial_world_def)

section \<open>Properties of Pool and Group\<close>

text \<open>
  C3. On the code, \<open>delete()\<close> without \<open>force\<close> never returns \<open>False\<close>: whatever the
  members are, \<open>Pool.delete\<close> raises \<open>NameError\<close> (\<open>Slave\<close> is not bound in \<open>pools.py\<close>)
  before it calls anything, and \<open>Group.delete\<close> raises \<open>TypeError\<close> (the proxy
  \<open>self.slaves\<close> is no iterator) after at most the fetch of the member names. No remote
  deletion is called.
\<close>

theorem delete_without_force_raises:
  "fst (Pool_delete api p False w) = Raises NameError
   \<and> calls (snd (snd (Pool_delete api p False w))) = calls w
   \<and> fst (Group_delete api g False w) = Raises TypeError
   \<and> calls (snd (snd (Group_delete api g False w))) =
       calls w @ (case group_slaves_cache g of
                    NOT_SET \<Rightarrow> [GetSlaveNamesInGroup (group_name g)]
                  | Cached ns \<Rightarrow> [])"
  by (auto simp add: Pool_delete_def Pool_slaves_def Group_delete_def Group_slaves_def
        Group_slave_names_def invoke_def split: cell.splits prod.splits outcome.splits)

text \<open>
  C7. On the code, \<open>Group.create()\<close> never returns: \<open>api.Group\<close> is not an attribute of
  the client, so \<open>AttributeError\<close> is raised before any remote call and nothing changes.
\<close>

theorem Group_create_raises: "Group_create api g w = (Raises AttributeError, w)"
  by (simp add: Group_create_def invoke_def)

text \<open>
  What does hold of \<open>create\<close> and of the forced \<open>delete\<close>: \<open>Pool.create()\<close> returns
  whether the status is \<open>Success\<close> and appends the name to a fetched all-names list
  only then; a forced \<open>delete\<close> returns \<open>False\<close> on any other status and leaves the
  list alone, and returns \<open>True\<close> on \<open>Success\<close> when the list is unset or holds the name.
\<close>

lemma Pool_create_result:
  "fst (Pool_create api p w) = Returns (fst (Pools_AddPool api (pool_name p) (remote w)) = ''Success'')"
  by (simp add: Pool_create_def invoke_ok split: prod.splits cell.splits)

lemma Pool_create_cache:
  "Pool_POOLS_CACHE (snd (Pool_create api p w)) =
     (case Pool_POOLS_CACHE w of
        NOT_SET \<Rightarrow> NOT_SET
      | Cached ns \<Rightarrow>
          if fst (Pools_AddPool api (pool_name p) (remote w)) = ''Success''
          then Cached (ns @ [pool_name p]) else Cached ns)"
  by (simp add: Pool_create_def invoke_ok split: prod.splits cell.splits)

lemma Pool_delete_forced_failure:
  "fst (Pools_DeletePool api (pool_name p) (remote w)) \<noteq> ''Success'' \<Longrightarrow>
   Pool_delete api p True w =
     (Returns False, p,
      w\<lparr>remote := snd (Pools_DeletePool api (pool_name p) (remote w)),
        calls := calls w @ [DeletePool (pool_name p)]\<rparr>)"
  by (simp add: Pool_delete_def Pool_delete_remote_def invoke_ok split: prod.splits cell.splits)

lemma Group_delete_forced_failure:
  "fst (Groups_DeleteGroup api (group_name g) (remote w)) \<noteq> ''Success'' \<Longrightarrow>
   Group_delete api g True w =
     (Returns False, g,
      w\<lparr>remote := snd (Groups_DeleteGroup api (group_name g) (remote w)),
        calls := calls w @ [DeleteGroup (group_name g)]\<rparr>)"
  by (simp add: Group_delete_def Group_delete_remote_def invoke_ok split: prod.splits cell.splits)

lemma list_remove_returns:
  "\<exists>e\<in>set xs. eq e \<Longrightarrow> \<exists>ys. list_remove eq xs = Returns ys"
  using list_remove_present [of xs eq] by blast

lemma Pool_delete_forced_success:
  assumes "fst (Pools_DeletePool api (pool_name p) (remote w)) = ''Success''"
    and "Pool_POOLS_CACHE w = NOT_SET \<or> (\<exists>ns. Pool_POOLS_CACHE w = Cached ns \<and> pool_name p \<in> set ns)"
  shows "fst (Pool_delete api p True w) = Returns True"
proof (cases "Pool_POOLS_CACHE w")
  case NOT_SET
  with assms(1) show ?thesis
    by (simp add: Pool_delete_def Pool_delete_remote_def invoke_ok split: prod.splits)
next
  case (Cached ns)
  with assms(2) have "\<exists>e\<in>set ns. e = pool_name p" by simp
  from list_remove_returns [OF this] obtain ys where
    "list_remove (\<lambda>n. n = pool_name p) ns = Returns ys" by blast
  with assms(1) Cached show ?thesis
    by (simp add: Pool_delete_def Pool_delete_remote_def invoke_ok split: prod.splits)
qed

section \<open>Properties of Slave\<close>

text \<open>
  C9. On the code, \<open>status\<close> and the four properties derived from it raise
  \<open>AttributeError\<close> for every slave, whatever the remote service reports.
\<close>

theorem Slave_status_raises:
  "Slave_status s = Raises AttributeError \<and> Slave_offline s = Raises AttributeError
   \<and> Slave_idle s = Raises AttributeError \<and> Slave_rendering s = Raises AttributeError
   \<and> Slave_stalled s = Raises AttributeError"
  by (simp add: Slave_status_def Slave_data_def Slave_offline_def Slave_idle_def
        Slave_rendering_def Slave_stalled_def)

text \<open>The enumeration itself is as listed: \<open>Status(v)\<close> finds the member by its value.\<close>

lemma Status_call_value: "Status_call (Leaf (PInt (Status_value m))) = Returns m"
  by (cases m) (simp_all add: Status_call_def)

lemma Status_call_other:
  "i \<notin> {0, 1, 2, 3, 4, 5, 9} \<Longrightarrow> Status_call (Leaf (PInt i)) = Raises ValueError"
  by (simp add: Status_call_def)

lemma Slave_info_calls:
  "calls (snd (snd (Slave_info api s w))) =
     calls w @ (if info_cell s = NOT_SET then [GetSlaveInfo (slave_name s)] else [])"
  by (simp add: Slave_info_def invoke_def Let_def split: prod.splits cell.splits)

lemma Slave_info_table:
  "Slave_INFO_CACHE (snd (snd (Slave_info api s w))) = Slave_INFO_CACHE w"
  by (simp add: Slave_info_def invoke_def Let_def split: prod.splits cell.splits)

lemma Slave_settings_calls:
  "calls (snd (snd (Slave_settings api s w))) =
     calls w @ (if settings_cell s = NOT_SET then [GetSlaveSettings (slave_name s)] else [])"
  by (simp add: Slave_settings_def invoke_def
        split: prod.splits cell.splits option.splits list.splits)

lemma Slave_settings_table:
  "Slave_SETTINGS_CACHE (snd (snd (Slave_settings api s w))) = Slave_SETTINGS_CACHE w"
  by (simp add: Slave_settings_def invoke_def
        split: prod.splits cell.splits option.splits list.splits)

lemma Slave_init_fields [simp]:
  "slave_name (Slave_init (AStr n) w) = n"
  "info_cell (Slave_init (AStr n) w) = Slave_INFO_CACHE w n"
  "settings_cell (Slave_init (AStr n) w) = Slave_SETTINGS_CACHE w n"
  by (simp_all add: Slave_init_def)

text \<open>
  C8. On the code, in a fresh process: after one \<open>Slave(n)\<close> has read \<open>info\<close>, a second
  \<open>Slave(n)\<close> still starts from \<open>NOT_SET\<close>, and reading \<open>info\<close> on it fetches again, so
  two \<open>GetSlaveInfo(n)\<close> calls have been made. The same holds for \<open>settings\<close>.
\<close>

theorem second_Slave_fetches_again:
  "(case Slave_info api (Slave_init (AStr n) (initial_world r)) (initial_world r) of
      (v1, s1, w1) \<Rightarrow>
        info_cell (Slave_init (AStr n) w1) = NOT_SET \<and>
        (case Slave_info api (Slave_init (AStr n) w1) w1 of
           (v2, s2, w2) \<Rightarrow> calls w2 = [GetSlaveInfo n, GetSlaveInfo n]))
   \<and> (case Slave_settings api (Slave_init (AStr n) (initial_world r)) (initial_world r) of
      (v1, s1, w1) \<Rightarrow>
        settings_cell (Slave_init (AStr n) w1) = NOT_SET \<and>
        (case Slave_settings api (Slave_init (AStr n) w1) w1 of
           (v2, s2, w2) \<Rightarrow> calls w2 = [GetSlaveSettings n, GetSlaveSettings n]))"
  by (simp add: case_prod_unfold Slave_info_calls Slave_info_table Slave_settings_calls
        Slave_settings_table)

lemma Slave_settings_cached:
  "settings_cell s = Cached (Some (x # rest)) \<Longrightarrow> Slave_settings api s w = (Returns x, s, w)"
  by (simp add: Slave_settings_def)

lemma map_of_dict_set:
  "map_of (dict_set d k v) k' = (if k' = k then Some v else map_of d k')"
  by (induction d) auto

lemma heap_get_update:
  "a < length h \<Longrightarrow> heap_get (h[a := d]) a = Some d"
  by (simp add: heap_get_def)

lemma heap_get_SomeD: "heap_get h a = Some d \<Longrightarrow> a < length h \<and> h ! a = d"
  by (auto simp: heap_get_def split: if_splits)

lemma write_settings_flat:
  assumes "heap_get h a = Some d"
    and "\<forall>(k, v)\<in>set kwargs. \<exists>x cur. v = Leaf x \<and> map_of d k = Some cur \<and> ne_stored cur x"
    and "distinct (map fst kwargs)"
  shows "\<exists>d'. write_settings root kwargs (HRef a) upd h = (Returns (upd \<or> kwargs \<noteq> []), h[a := d'])
           \<and> (\<forall>k. map_of d' k =
                 (case map_of kwargs k of Some (Leaf x) \<Rightarrow> Some (HLeaf x) | _ \<Rightarrow> map_of d k))"
  using assms
proof (induction kwargs arbitrary: d upd h)
  case Nil
  then have "h[a := d] = h" by (auto dest!: heap_get_SomeD)
  then show ?case by (intro exI [of _ d]) simp
next
  case (Cons kv kwargs)
  obtain k v where kv: "kv = (k, v)" by (cases kv)
  from Cons.prems(2) kv obtain x cur where
    x: "v = Leaf x" "map_of d k = Some cur" "ne_stored cur x" by auto
  let ?d1 = "dict_set d k (HLeaf x)"
  let ?h1 = "h[a := ?d1]"
  from Cons.prems(1) have a: "a < length h" by (auto dest: heap_get_SomeD)
  then have g1: "heap_get ?h1 a = Some ?d1" by (rule heap_get_update)
  from Cons.prems(3) kv have notin: "k \<notin> fst ` set kwargs" and dist: "distinct (map fst kwargs)"
    by auto
  have flat1: "\<forall>(k', v')\<in>set kwargs. \<exists>x cur. v' = Leaf x \<and> map_of ?d1 k' = Some cur \<and> ne_stored cur x"
  proof (clarify)
    fix k' v' assume in': "(k', v') \<in> set kwargs"
    with notin have "k' \<noteq> k" by force
    moreover from Cons.prems(2) in' obtain x' cur' where
      "v' = Leaf x'" "map_of d k' = Some cur'" "ne_stored cur' x'" by fastforce
    ultimately show "\<exists>x cur. v' = Leaf x \<and> map_of ?d1 k' = Some cur \<and> ne_stored cur x"
      by (simp add: map_of_dict_set)
  qed
  from Cons.IH [OF g1 flat1 dist, of True] obtain d' where
    d': "write_settings root kwargs (HRef a) True ?h1 = (Returns True, ?h1[a := d'])"
        "\<forall>k'. map_of d' k' =
                 (case map_of kwargs k' of Some (Leaf x) \<Rightarrow> Some (HLeaf x) | _ \<Rightarrow> map_of ?d1 k')"
    by auto
  have step: "write_settings root (kv # kwargs) (HRef a) upd h
                = write_settings root kwargs (HRef a) True ?h1"
    using kv x Cons.prems(1) by simp
  have none: "map_of kwargs k = None"
    using notin by (simp add: map_of_eq_None_iff)
  have "\<forall>k'. map_of d' k' =
          (case map_of (kv # kwargs) k' of Some (Leaf x) \<Rightarrow> Some (HLeaf x) | _ \<Rightarrow> map_of d k')"
    using d'(2) kv x(1) none by (auto simp: map_of_dict_set split: option.splits jval.splits)
  moreover have "write_settings root (kv # kwargs) (HRef a) upd h
                   = (Returns (upd \<or> kv # kwargs \<noteq> []), h[a := d'])"
    using step d'(1) by simp
  ultimately show ?case by blast
qed

lemma example_facts:
  "settings_cell example_slave = Cached (Some (HRef 0 # []))"
  "heap_get (heap (example_world b)) 0 = Some [(''Enable'', HLeaf (PBool b))]"
  "heap (example_world b) = [ [(''Enable'', HLeaf (PBool b))] ]"
  "calls (example_world b) = []"
  "remote (example_world b) = ()"
  by (simp_all add: example_slave_def example_world_def initial_world_def heap_get_def)


text \<open>
  C4 (amended). For a slave whose fetched settings dictionary holds \<open>Enable\<close>:
  when it is \<open>True\<close>, \<open>update_settings(Enable=True)\<close> returns \<open>True\<close> and nothing
  changes, no remote call is made; when it is \<open>False\<close>, the dictionary is set to
  \<open>True\<close>, exactly one \<open>SaveSlaveSettings\<close> call is made, and the result is \<open>True\<close>
  exactly when that call answers \<open>Success\<close> or \<open>No updates required\<close>.
\<close>

theorem update_settings_Enable:
  assumes "settings_cell s = Cached (Some (HRef a # rest))"
    and "heap_get (heap w) a = Some d"
  shows "(map_of d ''Enable'' = Some (HLeaf (PBool True)) \<longrightarrow>
            Slave_update_settings api s [(''Enable'', Leaf (PBool True))] w = (Returns True, s, w))
       \<and> (map_of d ''Enable'' = Some (HLeaf (PBool False)) \<longrightarrow>
            Slave_update_settings api s [(''Enable'', Leaf (PBool True))] w =
              (let h' = (heap w)[a := dict_set d ''Enable'' (HLeaf (PBool True))];
                   answer = Slaves_SaveSlaveSettings api h' (HRef a) (remote w)
               in (Returns (fst answer = ''Success'' \<or> fst answer = ''No updates required''), s,
                   w\<lparr>heap := h', remote := snd answer,
                     calls := calls w @ [SaveSlaveSettings (HRef a)]\<rparr>)))"
proof (intro conjI impI)
  assume "map_of d ''Enable'' = Some (HLeaf (PBool True))"
  then show "Slave_update_settings api s [(''Enable'', Leaf (PBool True))] w = (Returns True, s, w)"
    using assms
    by (simp add: Slave_update_settings_def Slave_settings_cached ne_stored_def)
next
  assume "map_of d ''Enable'' = Some (HLeaf (PBool False))"
  then show "Slave_update_settings api s [(''Enable'', Leaf (PBool True))] w =
              (let h' = (heap w)[a := dict_set d ''Enable'' (HLeaf (PBool True))];
                   answer = Slaves_SaveSlaveSettings api h' (HRef a) (remote w)
               in (Returns (fst answer = ''Success'' \<or> fst answer = ''No updates required''), s,
                   w\<lparr>heap := h', remote := snd answer,
                     calls := calls w @ [SaveSlaveSettings (HRef a)]\<rparr>))"
    using assms
    by (simp add: Slave_update_settings_def Slave_settings_cached ne_stored_def invoke_save Let_def)
qed


theorem update_settings_Enable_witness:
  "settings_cell example_slave = Cached (Some [HRef 0])
   \<and> heap_get (heap (example_world True)) 0 = Some [(''Enable'', HLeaf (PBool True))]
   \<and> Slave_update_settings (answering_api ''Success'') example_slave
        [(''Enable'', Leaf (PBool True))] (example_world True)
       = (Returns True, example_slave, example_world True)
   \<and> heap_get (heap (example_world False)) 0 = Some [(''Enable'', HLeaf (PBool False))]
   \<and> Slave_update_settings (answering_api ''Success'') example_slave
        [(''Enable'', Leaf (PBool True))] (example_world False)
       = (Returns True, example_slave,
          (example_world True)\<lparr>calls := [SaveSlaveSettings (HRef 0)]\<rparr>)"
proof -
  have w: "(example_world False)\<lparr>heap := [ [(''Enable'', HLeaf (PBool True))] ], remote := (),
             calls := [SaveSlaveSettings (HRef 0)]\<rparr>
           = (example_world True)\<lparr>calls := [SaveSlaveSettings (HRef 0)]\<rparr>"
    by (simp add: example_world_def)
  from update_settings_Enable [OF example_facts(1) example_facts(2) [of True], of "answering_api ''Success''"]
       update_settings_Enable [OF example_facts(1) example_facts(2) [of False], of "answering_api ''Success''"]
  show ?thesis
    by (simp add: example_facts Let_def w heap_get_def)
qed


text \<open>
  The claim as stated promises success whenever \<open>Enable\<close> was \<open>False\<close>. With a remote
  service that answers the save with \<open>Error\<close>, the call returns \<open>False\<close>.
\<close>

theorem update_settings_Enable_failed_save:
  "settings_cell example_slave = Cached (Some [HRef 0])
   \<and> heap_get (heap (example_world False)) 0 = Some [(''Enable'', HLeaf (PBool False))]
   \<and> Slave_update_settings (answering_api ''Error'') example_slave
        [(''Enable'', Leaf (PBool True))] (example_world False)
       = (Returns False, example_slave,
          (example_world True)\<lparr>calls := [SaveSlaveSettings (HRef 0)]\<rparr>)"
proof -
  have w: "(example_world False)\<lparr>heap := [ [(''Enable'', HLeaf (PBool True))] ], remote := (),
             calls := [SaveSlaveSettings (HRef 0)]\<rparr>
           = (example_world True)\<lparr>calls := [SaveSlaveSettings (HRef 0)]\<rparr>"
    by (simp add: example_world_def)
  have "Slave_update_settings (answering_api ''Error'') example_slave
        [(''Enable'', Leaf (PBool True))] (example_world False)
       = (Returns False, example_slave,
          (example_world True)\<lparr>calls := [SaveSlaveSettings (HRef 0)]\<rparr>)"
    by (simp add: Slave_update_settings_def Slave_settings_cached example_facts ne_stored_def
          invoke_save w heap_get_def)
  then show ?thesis by (simp add: example_facts heap_get_def)
qed


text \<open>
  C10. For a slave whose settings are fetched and any keyword updates on existing keys
  whose values all differ from the stored ones: when the remote save answers neither
  \<open>Success\<close> nor \<open>No updates required\<close>, \<open>update_settings\<close> returns \<open>False\<close> after
  exactly one save call, and the stored dictionary holds every new value.
\<close>

theorem update_settings_not_rolled_back:
  assumes "settings_cell s = Cached (Some (HRef a # rest))"
    and "heap_get (heap w) a = Some d"
    and "\<forall>(k, v)\<in>set kwargs. \<exists>x cur. v = Leaf x \<and> map_of d k = Some cur \<and> ne_stored cur x"
    and "distinct (map fst kwargs)"
    and "kwargs \<noteq> []"
    and "\<forall>h. fst (Slaves_SaveSlaveSettings api h (HRef a) (remote w))
               \<notin> {''Success'', ''No updates required''}"
  shows "\<exists>w' d'. Slave_update_settings api s kwargs w = (Returns False, s, w')
            \<and> calls w' = calls w @ [SaveSlaveSettings (HRef a)]
            \<and> heap_get (heap w') a = Some d'
            \<and> (\<forall>(k, v)\<in>set kwargs. \<forall>x. v = Leaf x \<longrightarrow> map_of d' k = Some (HLeaf x))"
proof -
  from write_settings_flat [OF assms(2,3,4), of "HRef a" False] obtain d' where
    d': "write_settings (HRef a) kwargs (HRef a) False (heap w) = (Returns (kwargs \<noteq> []), (heap w)[a := d'])"
        "\<forall>k. map_of d' k =
                 (case map_of kwargs k of Some (Leaf x) \<Rightarrow> Some (HLeaf x) | _ \<Rightarrow> map_of d k)"
    by auto
  let ?h = "(heap w)[a := d']"
  let ?ans = "Slaves_SaveSlaveSettings api ?h (HRef a) (remote w)"
  let ?w' = "w\<lparr>heap := ?h, remote := snd ?ans, calls := calls w @ [SaveSlaveSettings (HRef a)]\<rparr>"
  from assms(6) have bad: "fst ?ans \<noteq> ''Success''" "fst ?ans \<noteq> ''No updates required''"
    by auto
  have run: "Slave_update_settings api s kwargs w = (Returns False, s, ?w')"
    using assms(1,5) d'(1) bad
    by (simp add: Slave_update_settings_def Slave_settings_cached invoke_save)
  from assms(2) have "a < length (heap w)" by (auto dest: heap_get_SomeD)
  then have hg: "heap_get (heap ?w') a = Some d'" by (simp add: heap_get_update)
  have vals: "\<forall>(k, v)\<in>set kwargs. \<forall>x. v = Leaf x \<longrightarrow> map_of d' k = Some (HLeaf x)"
  proof (clarify)
    fix k x assume "(k, Leaf x) \<in> set kwargs"
    with assms(4) have "map_of kwargs k = Some (Leaf x)" by simp
    with d'(2) show "map_of d' k = Some (HLeaf x)" by simp
  qed
  from run hg vals show ?thesis by (intro exI [of _ ?w'] exI [of _ d']) simp
qed

theorem update_settings_not_rolled_back_witness:
  "settings_cell example_slave = Cached (Some [HRef 0])
   \<and> heap_get (heap (example_world False)) 0 = Some [(''Enable'', HLeaf (PBool False))]
   \<and> map_of [(''Enable'', HLeaf (PBool False))] ''Enable'' = Some (HLeaf (PBool False))
   \<and> ne_stored (HLeaf (PBool False)) (PBool True)
   \<and> distinct (map fst [(''Enable'', Leaf (PBool True))])
   \<and> (\<forall>h. fst (Slaves_SaveSlaveSettings (answering_api ''Error'') h (HRef 0)
                   (remote (example_world False)))
              \<notin> {''Success'', ''No updates required''})
   \<and> (\<exists>w' d'. Slave_update_settings (answering_api ''Error'') example_slave
                  [(''Enable'', Leaf (PBool True))] (example_world False)
                = (Returns False, example_slave, w')
            \<and> calls w' = calls (example_world False) @ [SaveSlaveSettings (HRef 0)]
            \<and> heap_get (heap w') 0 = Some d'
            \<and> map_of d' ''Enable'' = Some (HLeaf (PBool True)))"
proof -
  have cur: "map_of [(''Enable'', HLeaf (PBool False))] ''Enable'' = Some (HLeaf (PBool False))"
    by simp
  have ne: "ne_stored (HLeaf (PBool False)) (PBool True)"
    by (simp add: ne_stored_def)
  have dist: "distinct (map fst [(''Enable'', Leaf (PBool True))])"
    by simp
  have flat: "\<forall>(k, v)\<in>set [(''Enable'', Leaf (PBool True))].
         \<exists>x cur. v = Leaf x \<and> map_of [(''Enable'', HLeaf (PBool False))] k = Some cur \<and> ne_stored cur x"
    using cur ne by simp
  have bad: "\<forall>h. fst (Slaves_SaveSlaveSettings (answering_api ''Error'') h (HRef 0)
                   (remote (example_world False)))
              \<notin> {''Success'', ''No updates required''}"
    by simp
  from update_settings_not_rolled_back
         [OF example_facts(1) example_facts(2) [of False] flat dist _ bad]
  have concl: "\<exists>w' d'. Slave_update_settings (answering_api ''Error'') example_slave
                  [(''Enable'', Leaf (PBool True))] (example_world False)
                = (Returns False, example_slave, w')
            \<and> calls w' = calls (example_world False) @ [SaveSlaveSettings (HRef 0)]
            \<and> heap_get (heap w') 0 = Some d'
            \<and> map_of d' ''Enable'' = Some (HLeaf (PBool True))"
    by simp
  show ?thesis
    by (intro conjI) (rule example_facts(1) example_facts(2) cur ne dist bad concl)+
qed

section \<open>Properties of the proxies\<close>

lemma str_split_no_sep: "sep \<notin> set p \<Longrightarrow> str_split sep p = [p]"
  by (induction p) auto

lemma str_split_append:
  "sep \<notin> set p \<Longrightarrow> str_split sep (p @ sep # rest) = p # str_split sep rest"
  by (induction p) auto

lemma str_split_join:
  "\<forall>x\<in>set xs. sep \<notin> set x \<Longrightarrow> xs \<noteq> [] \<Longrightarrow> str_split sep (str_join [sep] xs) = xs"
proof (induction xs)
  case Nil
  then show ?case by simp
next
  case (Cons x xs)
  show ?case
  proof (cases xs)
    case Nil
    with Cons.prems show ?thesis by (simp add: str_split_no_sep)
  next
    case (Cons y ys)
    with Cons.IH Cons.prems have "str_split sep (str_join [sep] xs) = xs" by simp
    with Cons Cons.prems show ?thesis by (simp add: str_split_append)
  qed
qed

text \<open>The reference farm.\<close>

lemma map_of_farm_set_groups:
  "map_of (farm_set_groups sl gs farm) s =
     (case map_of farm s of None \<Rightarrow> None | Some old \<Rightarrow> Some (if s \<in> set sl then gs else old))"
  by (induction farm) (auto simp: farm_set_groups_def)

lemma map_of_farm_remove_group:
  "map_of (farm_remove_group sl g farm) s =
     (case map_of farm s of None \<Rightarrow> None
      | Some old \<Rightarrow> Some (if s = sl then removeAll g old else old))"
  by (induction farm) (auto simp: farm_remove_group_def)

lemma farm_members_mem:
  "distinct (map fst farm) \<Longrightarrow> s \<in> set (farm_members farm g) \<Longrightarrow>
   \<exists>gs. map_of farm s = Some gs \<and> g \<in> set gs"
  by (auto simp: farm_members_def)

lemma farm_members_subset: "set (farm_members farm g) \<subseteq> fst ` set farm"
  by (auto simp: farm_members_def)

lemma farm_members_distinct: "distinct (map fst farm) \<Longrightarrow> distinct (farm_members farm g)"
  by (simp add: farm_members_def distinct_map_filter)

lemma farm_ok_lower:
  assumes "farm_ok farm"
  shows "distinct (map fst farm) \<and> inj_on str_lower (fst ` set farm)"
proof -
  have "map (\<lambda>(s, gs). str_lower s) farm = map str_lower (map fst farm)"
    by (induction farm) auto
  moreover from assms have "distinct (map (\<lambda>(s, gs). str_lower s) farm)"
    by (simp add: farm_ok_def)
  ultimately have "distinct (map str_lower (map fst farm))"
    by (simp only:)
  then show ?thesis
    unfolding distinct_map [of str_lower "map fst farm"] set_map .
qed

lemma farm_ok_fst: "farm_ok farm \<Longrightarrow> distinct (map fst farm)"
  using farm_ok_lower [of farm] by blast

lemma farm_ok_names:
  assumes "farm_ok farm" and "a \<in> fst ` set farm" and "b \<in> fst ` set farm" and "a \<noteq> b"
  shows "str_lower a \<noteq> str_lower b"
proof -
  from farm_ok_lower [OF assms(1)] have "inj_on str_lower (fst ` set farm)"
    by blast
  from inj_onD [OF this _ assms(2,3)] assms(4) show ?thesis
    by blast
qed

lemma farm_ok_groups:
  assumes "farm_ok farm" and "map_of farm s = Some gs"
  shows "distinct (map str_lower gs)" "\<forall>x\<in>set gs. x \<noteq> [] \<and> CHR '','' \<notin> set x"
proof -
  from assms(2) have "(s, gs) \<in> set farm"
    by (rule map_of_SomeD)
  with assms(1) show "distinct (map str_lower gs)" "\<forall>x\<in>set gs. x \<noteq> [] \<and> CHR '','' \<notin> set x"
    by (auto simp: farm_ok_def list_all_iff)
qed

lemma one_spelling:
  assumes "distinct (map str_lower gs)" and "g \<in> set gs" and "x \<in> set gs"
    and "str_lower x = str_lower g"
  shows "x = g"
proof -
  from assms(1) have "inj_on str_lower (set gs)"
    by (simp add: distinct_map)
  with assms(2,3,4) show ?thesis
    by (auto dest: inj_onD)
qed

lemma farm_api_fields [simp]:
  "Slaves_GetSlaveInfo (farm_api acc) n r = (farm_info r n, r)"
  "Slaves_SetGroupsForSlave (farm_api acc) s g r =
     farm_change acc (SetGroupsForSlave s g) (farm_set_groups (names_list s) (names_list g)) r"
  "Slaves_GetSlaveNamesInGroup (farm_api acc) n r = (farm_members r n, r)"
  "Slaves_RemoveGroupFromSlave (farm_api acc) sn gn r =
     farm_change acc (RemoveGroupFromSlave sn gn) (farm_remove_group sn gn) r"
  by (simp_all add: farm_api_def)

lemma farm_change_snd:
  "snd (farm_change acc c f r) = (if acc c then f r else r)"
  by (simp add: farm_change_def)

lemma map_of_farm_change_set:
  "map_of (snd (farm_change acc c (farm_set_groups sl gs) farm)) s =
     (case map_of farm s of None \<Rightarrow> None
      | Some old \<Rightarrow> Some (if acc c \<and> s \<in> set sl then gs else old))"
  by (simp add: farm_change_def map_of_farm_set_groups split: option.splits)

lemma map_of_farm_change_remove:
  "map_of (snd (farm_change acc c (farm_remove_group sl g) farm)) s =
     (case map_of farm s of None \<Rightarrow> None
      | Some old \<Rightarrow> Some (if acc c \<and> s = sl then removeAll g old else old))"
  by (simp add: farm_change_def map_of_farm_remove_group split: option.splits)

text \<open>Reading a slave's groups from the farm.\<close>

lemma Slave_info_cached: "info_cell s = Cached v \<Longrightarrow> Slave_info api s w = (Returns v, s, w)"
  by (simp add: Slave_info_def)

lemma farm_info_known:
  "map_of farm s = Some gs \<Longrightarrow> farm_info farm s = Dict [(''Grps'', Leaf (PStr (str_join '','' gs)))]"
  by (simp add: farm_info_def)

lemma Slave_info_farm:
  assumes "info_cell s = NOT_SET" and "map_of (remote w) (slave_name s) = Some gs"
  shows "Slave_info (farm_api acc) s w =
           (Returns (Dict [(''Grps'', Leaf (PStr (str_join '','' gs)))]),
            s\<lparr>info_cell := Cached (Dict [(''Grps'', Leaf (PStr (str_join '','' gs)))])\<rparr>,
            w\<lparr>calls := calls w @ [GetSlaveInfo (slave_name s)]\<rparr>)"
  using assms
  by (simp add: Slave_info_def invoke_ok farm_info_known Let_def)

lemma Slave_groups_farm:
  assumes "info_cell s = NOT_SET" and "map_of (remote w) (slave_name s) = Some gs"
  shows "Slave_groups (farm_api acc) s w =
           (Returns (DeadlineList_init GroupT
                       (s\<lparr>info_cell := Cached (Dict [(''Grps'', Leaf (PStr (str_join '','' gs)))])\<rparr>)
                       (map AStr (str_split CHR '','' (str_join '','' gs)))),
            s\<lparr>info_cell := Cached (Dict [(''Grps'', Leaf (PStr (str_join '','' gs)))])\<rparr>,
            w\<lparr>calls := calls w @ [GetSlaveInfo (slave_name s)]\<rparr>)"
  by (simp add: Slave_groups_def Slave_info_farm [OF assms] getitem_def)

lemma Slave_in_group_farm:
  assumes "Slave_INFO_CACHE w s = NOT_SET" and "map_of (remote w) s = Some gs"
  shows "Slave_in_group (farm_api acc) s g w =
           Returns (list_ex (\<lambda>x. str_lower x = str_lower g) (str_split CHR '','' (str_join '','' gs)))"
proof -
  have 1: "info_cell (Slave_init (AStr s) w) = NOT_SET"
    using assms(1) by (simp add: Slave_init_def)
  have 2: "map_of (remote w) (slave_name (Slave_init (AStr s) w)) = Some gs"
    using assms(2) by (simp add: Slave_init_def)
  show ?thesis
    by (simp add: Slave_in_group_def Slave_groups_farm [OF 1 2] DeadlineList_contains_def
          DeadlineList_init_def new_item_def list_ex_iff)
qed

lemma Slave_in_group_farm_names:
  assumes "Slave_INFO_CACHE w s = NOT_SET" and "map_of (remote w) s = Some gs"
    and "\<forall>x\<in>set gs. CHR '','' \<notin> set x" and "g \<noteq> []"
  shows "Slave_in_group (farm_api acc) s g w = Returns (\<exists>x\<in>set gs. str_lower x = str_lower g)"
proof (cases "gs = []")
  case True
  with assms(4) show ?thesis
    by (simp add: Slave_in_group_farm [OF assms(1,2)] str_lower_def)
next
  case False
  from str_split_join [OF assms(3) False]
  have "str_split CHR '','' (str_join '','' gs) = gs"
    by simp
  then show ?thesis
    by (simp add: Slave_in_group_farm [OF assms(1,2)] list_ex_iff)
qed

text \<open>
  \<open>remove\<close> on a SlaveGroups proxy whose slave holds a fetched info dictionary: one
  \<open>RemoveGroupFromSlave\<close> call, whatever it answers, and the dictionary's \<open>Grps\<close> entry
  becomes the remaining names, comma-joined.
\<close>

lemma SlaveGroups_remove_patches_info:
  assumes "info_cell (source P) = Cached (Dict d)"
    and "list_remove (\<lambda>e. DeadlineItem_eq e (AItem (new_item (item_type P) x))) (items P) = Returns xs"
  shows "DeadlineList_remove (SlaveGroups_hooks api) P x w =
           (Returns (),
            P\<lparr>items := xs,
              source := (source P)\<lparr>info_cell :=
                Cached (Dict (dict_set d ''Grps'' (Leaf (PStr (str_join '','' (map name xs))))))\<rparr>\<rparr>,
            w\<lparr>remote := snd (Slaves_RemoveGroupFromSlave api (slave_name (source P)) (str_of x) (remote w)),
              calls := calls w @ [RemoveGroupFromSlave (slave_name (source P)) (str_of x)]\<rparr>)"
  using assms
  by (simp add: DeadlineList_remove_def SlaveGroups_hooks_def invoke_ok SlaveGroups_patch_def
        Slave_info_cached Let_def)

lemma list_remove_the_one:
  "a \<in> set xs \<Longrightarrow> \<forall>x\<in>set xs. P x \<longleftrightarrow> x = a \<Longrightarrow> list_remove P xs = Returns (remove1 a xs)"
proof (induction xs)
  case Nil
  then show ?case by simp
next
  case (Cons x xs)
  show ?case
  proof (cases "x = a")
    case True
    with Cons.prems show ?thesis by simp
  next
    case False
    with Cons.prems have "a \<in> set xs" "\<forall>x\<in>set xs. P x \<longleftrightarrow> x = a" "\<not> P x"
      by auto
    with Cons.IH False show ?thesis by simp
  qed
qed

lemma Slave_groups_remove_steps:
  assumes "Slave_groups api (Slave_init x w) w = (Returns P, s', w')"
    and "DeadlineList_remove (SlaveGroups_hooks api) P (AItem (Group_item G)) w' = (r, P', w'')"
  shows "Slave_groups_remove api x G w = (r, source P', w'')"
  using assms by (simp add: Slave_groups_remove_def)

lemma Slave_groups_remove_farm:
  assumes cache: "Slave_INFO_CACHE w s = NOT_SET"
    and known: "map_of (remote w) s = Some gs"
    and names: "\<forall>x\<in>set gs. CHR '','' \<notin> set x" "distinct (map str_lower gs)"
    and member: "group_name G \<in> set gs"
  shows "Slave_groups_remove (farm_api acc) (AItem \<lparr>cls = SlaveT, name = s\<rparr>) G w =
           (Returns (),
            \<lparr>slave_name = s,
             info_cell = Cached (Dict [(''Grps'',
                           Leaf (PStr (str_join '','' (remove1 (group_name G) gs))))]),
             settings_cell = Slave_SETTINGS_CACHE w s\<rparr>,
            w\<lparr>remote := snd (farm_change acc (RemoveGroupFromSlave s (group_name G))
                                (farm_remove_group s (group_name G)) (remote w)),
              calls := calls w @ [GetSlaveInfo s, RemoveGroupFromSlave s (group_name G)]\<rparr>)"
proof -
  let ?x = "AItem \<lparr>cls = SlaveT, name = s\<rparr>"
  let ?s = "Slave_init ?x w"
  let ?info = "Dict [(''Grps'', Leaf (PStr (str_join '','' gs)))]"
  let ?s' = "?s\<lparr>info_cell := Cached ?info\<rparr>"
  let ?w' = "w\<lparr>calls := calls w @ [GetSlaveInfo s]\<rparr>"
  let ?mk = "\<lambda>n. \<lparr>cls = GroupT, name = n\<rparr>"
  let ?P = "DeadlineList_init GroupT ?s' (map AStr gs)"
  let ?g = "AItem (Group_item G)"
  have 1: "info_cell ?s = NOT_SET"
    using cache by (simp add: Slave_init_def)
  have n: "slave_name ?s = s"
    by (simp add: Slave_init_def)
  have 2: "map_of (remote w) (slave_name ?s) = Some gs"
    using known n by simp
  from member have ne: "gs \<noteq> []"
    by auto
  have sj: "str_split CHR '','' (str_join '','' gs) = gs"
    using str_split_join [OF names(1) ne] by simp
  have groups: "Slave_groups (farm_api acc) ?s w = (Returns ?P, ?s', ?w')"
    using Slave_groups_farm [OF 1 2] n sj by simp
  have its: "items ?P = map ?mk gs"
    by (simp add: new_item_def)
  have "list_remove (\<lambda>e. DeadlineItem_eq e (AItem (new_item (item_type ?P) ?g))) (map ?mk gs)
          = Returns (remove1 (?mk (group_name G)) (map ?mk gs))"
  proof (rule list_remove_the_one)
    show "?mk (group_name G) \<in> set (map ?mk gs)"
      using member by simp
    show "\<forall>x\<in>set (map ?mk gs).
            DeadlineItem_eq x (AItem (new_item (item_type ?P) ?g)) \<longleftrightarrow> x = ?mk (group_name G)"
      using one_spelling [OF names(2) member]
      by (auto simp: new_item_def Group_item_def)
  qed
  moreover have "remove1 (?mk (group_name G)) (map ?mk gs) = map ?mk (remove1 (group_name G) gs)"
    by (induction gs) auto
  ultimately have rm:
    "list_remove (\<lambda>e. DeadlineItem_eq e (AItem (new_item (item_type ?P) ?g))) (items ?P)
       = Returns (map ?mk (remove1 (group_name G) gs))"
    by (simp only: its)
  have src: "info_cell (source ?P) = Cached (Dict [(''Grps'', Leaf (PStr (str_join '','' gs)))])"
    by (simp add: DeadlineList_init_def)
  have "DeadlineList_remove (SlaveGroups_hooks (farm_api acc)) ?P ?g ?w' =
          (Returns (),
           ?P\<lparr>items := map ?mk (remove1 (group_name G) gs),
               source := (source ?P)\<lparr>info_cell :=
                 Cached (Dict (dict_set [(''Grps'', Leaf (PStr (str_join '','' gs)))] ''Grps''
                   (Leaf (PStr (str_join '','' (map name (map ?mk (remove1 (group_name G) gs))))))))\<rparr>\<rparr>,
           ?w'\<lparr>remote := snd (Slaves_RemoveGroupFromSlave (farm_api acc) (slave_name (source ?P))
                                (str_of ?g) (remote ?w')),
                calls := calls ?w' @ [RemoveGroupFromSlave (slave_name (source ?P)) (str_of ?g)]\<rparr>)"
    by (rule SlaveGroups_remove_patches_info [OF src rm])
  from Slave_groups_remove_steps [OF groups this] show ?thesis
    by (simp add: Group_item_def comp_def DeadlineList_init_def Slave_init_def)
qed

lemma py_set_two:
  "str_lower a \<noteq> str_lower b \<Longrightarrow>
   py_set [\<lparr>cls = SlaveT, name = a\<rparr>, \<lparr>cls = SlaveT, name = b\<rparr>]
     = [\<lparr>cls = SlaveT, name = a\<rparr>, \<lparr>cls = SlaveT, name = b\<rparr>]"
  by (simp add: py_set_def same_key_def)

lemma set_diff_two:
  "str_lower b \<noteq> str_lower a \<Longrightarrow> str_lower b \<noteq> str_lower c \<Longrightarrow>
   set_diff [\<lparr>cls = SlaveT, name = a\<rparr>, \<lparr>cls = SlaveT, name = b\<rparr>]
            [\<lparr>cls = SlaveT, name = a\<rparr>, \<lparr>cls = SlaveT, name = c\<rparr>]
     = [\<lparr>cls = SlaveT, name = b\<rparr>]"
  by (auto simp add: set_diff_def same_key_def)

lemma order_single:
  assumes "\<And>xs. length (order xs) = length xs \<and> set (order xs) = set xs"
  shows "order [x] = [x]"
proof -
  from assms [of "[x]"] have "length (order [x]) = 1" "set (order [x]) = {x}"
    by simp_all
  then show ?thesis
    by (cases "order [x]") auto
qed

lemma initial_world_remote [simp]: "remote (initial_world r) = r"
  by (simp add: initial_world_def)

lemma Group_slaves_initial:
  "Group_slaves (farm_api acc) (Group_init (AStr g) (initial_world farm)) (initial_world farm) =
     (Returns (DeadlineList_init SlaveT
                 \<lparr>group_name = g, group_slaves_cache = Cached (farm_members farm g)\<rparr>
                 (map AStr (farm_members farm g))),
      \<lparr>group_name = g, group_slaves_cache = Cached (farm_members farm g)\<rparr>,
      (initial_world farm)\<lparr>calls := [GetSlaveNamesInGroup g]\<rparr>)"
  by (simp add: Group_slaves_def Group_slave_names_def Group_init_def invoke_ok initial_world_def)

text \<open>
  C2. Against the reference farm, in a fresh process. Let the farm's names be well
  formed, the members of group \<open>g\<close> be \<open>[s1, s3]\<close>, \<open>s2\<close> another slave of the farm, and
  let a set be iterated in any order. Then \<open>Group(g).slaves = [s1, s2]\<close> returns after
  these remote calls, in this order: the fetch of the members, one \<open>SetGroupsForSlave\<close>
  call that assigns \<open>g\<close> to the added slave \<open>s2\<close>, and for the removed slave \<open>s3\<close> the
  fetch of its info and one \<open>RemoveGroupFromSlave\<close> call. The farm has carried out the
  changes it accepted and no other. The removal from the group proxy of \<open>s3\<close>, made in
  the state the assignment leaves, patches the info dictionary of that slave instance to
  list the remaining groups, whether or not the service accepted the call. Afterwards
  \<open>g in Slave(s3).groups\<close> is false exactly when the service accepted the removal, and
  \<open>g in Slave(s2).groups\<close> is true when it accepted the assignment (when it refused,
  only if \<open>s2\<close> already had a group of that name in some spelling).
\<close>

theorem Group_set_slaves_bidirectional:
  assumes ok: "farm_ok farm"
    and members: "farm_members farm g = [s1, s3]"
    and groups2: "map_of farm s2 = Some gs2"
    and groups3: "map_of farm s3 = Some gs3"
    and other: "s2 \<noteq> s1" "s2 \<noteq> s3"
    and order: "\<And>xs. length (order xs) = length xs \<and> set (order xs) = set xs"
  shows "(let api = farm_api accepts;
              w0 = initial_world farm;
              assign = SetGroupsForSlave (NameList [s2]) (OneName g);
              removal = RemoveGroupFromSlave s3 g;
              farm1 = (if accepts assign then farm_set_groups [s2] [g] farm else farm);
              farm2 = (if accepts removal then farm_remove_group s3 g farm1 else farm1);
              w2 = w0\<lparr>remote := farm1, calls := [GetSlaveNamesInGroup g, assign]\<rparr>;
              w4 = w0\<lparr>remote := farm2,
                       calls := [GetSlaveNamesInGroup g, assign, GetSlaveInfo s3, removal]\<rparr>;
              G = \<lparr>group_name = g, group_slaves_cache = Cached [s1, s3]\<rparr>
          in Group_set_slaves order api (Group_init (AStr g) w0) [AStr s1, AStr s2] w0
               = (Returns (), G, w4)
           \<and> Slave_groups_remove api (AItem \<lparr>cls = SlaveT, name = s3\<rparr>) G w2
               = (Returns (),
                  \<lparr>slave_name = s3,
                   info_cell = Cached (Dict [(''Grps'', Leaf (PStr (str_join '','' (remove1 g gs3))))]),
                   settings_cell = NOT_SET\<rparr>,
                  w4)
           \<and> Slave_in_group api s2 g w4
               = Returns (accepts assign \<or> (\<exists>x\<in>set gs2. str_lower x = str_lower g))
           \<and> Slave_in_group api s3 g w4 = Returns (\<not> accepts removal))"
proof -
  let ?api = "farm_api accepts"
  let ?w0 = "initial_world farm"
  let ?add = "SetGroupsForSlave (NameList [s2]) (OneName g)"
  let ?del = "RemoveGroupFromSlave s3 g"
  let ?farm1 = "snd (farm_change accepts ?add (farm_set_groups [s2] [g]) farm)"
  let ?farm2 = "snd (farm_change accepts ?del (farm_remove_group s3 g) ?farm1)"
  let ?w1 = "?w0\<lparr>calls := [GetSlaveNamesInGroup g]\<rparr>"
  let ?w2 = "?w0\<lparr>remote := ?farm1, calls := [GetSlaveNamesInGroup g, ?add]\<rparr>"
  let ?w4 = "?w0\<lparr>remote := ?farm2,
                 calls := [GetSlaveNamesInGroup g, ?add, GetSlaveInfo s3, ?del]\<rparr>"
  let ?G = "\<lparr>group_name = g, group_slaves_cache = Cached [s1, s3]\<rparr>"
  let ?S1 = "\<lparr>cls = SlaveT, name = s1\<rparr>"
  let ?S2 = "\<lparr>cls = SlaveT, name = s2\<rparr>"
  let ?S3 = "\<lparr>cls = SlaveT, name = s3\<rparr>"
  let ?s3' = "\<lparr>slave_name = s3,
               info_cell = Cached (Dict [(''Grps'', Leaf (PStr (str_join '','' (remove1 g gs3))))]),
               settings_cell = NOT_SET\<rparr>"
  let ?P0 = "DeadlineList_init SlaveT ?G [AStr s1, AStr s3]"
  have dist: "distinct (map fst farm)"
    by (rule farm_ok_fst [OF ok])
  from members have in1: "s1 \<in> set (farm_members farm g)" and in3: "s3 \<in> set (farm_members farm g)"
    by simp_all
  from in1 in3 farm_members_subset [of farm g]
  have n1: "s1 \<in> fst ` set farm" and n3: "s3 \<in> fst ` set farm"
    by blast+
  from map_of_SomeD [OF groups2] have n2: "s2 \<in> fst ` set farm"
    by force
  from farm_members_distinct [OF dist, of g] members have ne13: "s1 \<noteq> s3"
    by simp
  have ci: "str_lower s1 \<noteq> str_lower s2" "str_lower s1 \<noteq> str_lower s3"
           "str_lower s2 \<noteq> str_lower s3"
    using farm_ok_names [OF ok n1 n2] farm_ok_names [OF ok n1 n3 ne13] farm_ok_names [OF ok n2 n3]
      other
    by auto
  from farm_members_mem [OF dist in3] groups3 have gin: "g \<in> set gs3"
    by auto
  note wf2 = farm_ok_groups [OF ok groups2]
  note wf3 = farm_ok_groups [OF ok groups3]
  from wf3(2) gin have gname: "g \<noteq> []" "CHR '','' \<notin> set g"
    by auto
  from wf3(2) have commas3: "\<forall>x\<in>set gs3. CHR '','' \<notin> set x"
    by blast
  from wf2(2) have commas2: "\<forall>x\<in>set gs2. CHR '','' \<notin> set x"
    by blast
  have m3: "map_of (remote ?w2) s3 = Some gs3"
    using groups3 other by (simp add: map_of_farm_change_set)
  have c2: "Slave_INFO_CACHE ?w2 s3 = NOT_SET"
    by simp
  have rem: "Slave_groups_remove ?api (AItem ?S3) ?G ?w2 = (Returns (), ?s3', ?w4)"
    using Slave_groups_remove_farm [of ?w2 s3 gs3 ?G accepts, OF c2 m3 commas3 wf3(1)] gin
    by simp
  have gs: "Group_slaves ?api (Group_init (AStr g) ?w0) ?w0 = (Returns ?P0, ?G, ?w1)"
    by (simp add: Group_slaves_initial members)
  have old: "py_set [?S1, ?S3] = [?S1, ?S3]" and new: "py_set [?S1, ?S2] = [?S1, ?S2]"
    using ci by (simp_all add: py_set_two)
  have added: "set_diff [?S1, ?S2] [?S1, ?S3] = [?S2]"
    using ci by (simp add: set_diff_two)
  have gone: "set_diff [?S1, ?S3] [?S1, ?S2] = [?S3]"
    using ci by (simp add: set_diff_two [of s3 s1 s2])
  have ts: "trigger_set (GroupSlaves_hooks order ?api) (?P0\<lparr>items := [?S1, ?S2]\<rparr>) [?S1, ?S3] ?w1
              = (Returns (), ?P0\<lparr>items := [?S1, ?S2]\<rparr>, ?w4)"
    using rem
    by (simp add: GroupSlaves_hooks_def old new added gone order_single [OF order] invoke_ok
          Let_def DeadlineList_init_def)
  have run: "Group_set_slaves order ?api (Group_init (AStr g) ?w0) [AStr s1, AStr s2] ?w0
               = (Returns (), ?G, ?w4)"
    using ts
    by (simp add: Group_set_slaves_def gs DeadlineList_setitem_def list_set_slice_def Let_def
          DeadlineList_init_def new_item_def)
  have c4: "Slave_INFO_CACHE ?w4 s = NOT_SET" for s
    by simp
  have in2: "Slave_in_group ?api s2 g ?w4
               = Returns (accepts ?add \<or> (\<exists>x\<in>set gs2. str_lower x = str_lower g))"
  proof (cases "accepts ?add")
    case True
    then have m: "map_of (remote ?w4) s2 = Some [g]"
      using groups2 other by (simp add: map_of_farm_change_set map_of_farm_change_remove)
    from gname(2) have "\<forall>x\<in>set [g]. CHR '','' \<notin> set x"
      by simp
    from Slave_in_group_farm_names [OF c4 m this gname(1)] True show ?thesis
      by simp
  next
    case False
    then have m: "map_of (remote ?w4) s2 = Some gs2"
      using groups2 other by (simp add: map_of_farm_change_set map_of_farm_change_remove)
    from Slave_in_group_farm_names [OF c4 m commas2 gname(1)] False show ?thesis
      by simp
  qed
  have in3: "Slave_in_group ?api s3 g ?w4 = Returns (\<not> accepts ?del)"
  proof (cases "accepts ?del")
    case True
    then have m: "map_of (remote ?w4) s3 = Some (removeAll g gs3)"
      using groups3 other by (simp add: map_of_farm_change_set map_of_farm_change_remove)
    from commas3 have c: "\<forall>x\<in>set (removeAll g gs3). CHR '','' \<notin> set x"
      by simp
    have "\<not> (\<exists>x\<in>set (removeAll g gs3). str_lower x = str_lower g)"
      using one_spelling [OF wf3(1) gin] by auto
    with Slave_in_group_farm_names [OF c4 m c gname(1)] True show ?thesis
      by simp
  next
    case False
    then have m: "map_of (remote ?w4) s3 = Some gs3"
      using groups3 other by (simp add: map_of_farm_change_set map_of_farm_change_remove)
    from Slave_in_group_farm_names [OF c4 m commas3 gname(1)] False gin show ?thesis
      by auto
  qed
  from run rem in2 in3 show ?thesis
    by (simp only: Let_def farm_change_snd simp_thms)
qed

theorem Group_set_slaves_bidirectional_witness:
  "farm_ok example_farm
   \<and> farm_members example_farm ''g'' = [''s1'', ''s3'']
   \<and> map_of example_farm ''s2'' = Some [''other'']
   \<and> map_of example_farm ''s3'' = Some [''x'', ''g'']
   \<and> ''s2'' \<noteq> ''s1'' \<and> ''s2'' \<noteq> ''s3''
   \<and> (\<forall>xs. length (insertion_order xs) = length xs \<and> set (insertion_order xs) = set xs)
   \<and> Group_set_slaves insertion_order (farm_api accepting)
         (Group_init (AStr ''g'') (initial_world example_farm))
         [AStr ''s1'', AStr ''s2''] (initial_world example_farm)
       = (Returns (), \<lparr>group_name = ''g'', group_slaves_cache = Cached [''s1'', ''s3'']\<rparr>,
          (initial_world example_farm)
            \<lparr>remote := [(''s1'', [''g'']), (''s2'', [''g'']), (''s3'', [''x''])],
             calls := [GetSlaveNamesInGroup ''g'',
                       SetGroupsForSlave (NameList [''s2'']) (OneName ''g''),
                       GetSlaveInfo ''s3'', RemoveGroupFromSlave ''s3'' ''g'']\<rparr>)
   \<and> Slave_groups_remove (farm_api accepting) (AItem \<lparr>cls = SlaveT, name = ''s3''\<rparr>)
         \<lparr>group_name = ''g'', group_slaves_cache = Cached [''s1'', ''s3'']\<rparr>
         ((initial_world example_farm)
            \<lparr>remote := [(''s1'', [''g'']), (''s2'', [''g'']), (''s3'', [''x'', ''g''])],
             calls := [GetSlaveNamesInGroup ''g'',
                       SetGroupsForSlave (NameList [''s2'']) (OneName ''g'')]\<rparr>)
       = (Returns (),
          \<lparr>slave_name = ''s3'', info_cell = Cached (Dict [(''Grps'', Leaf (PStr ''x''))]),
           settings_cell = NOT_SET\<rparr>,
          (initial_world example_farm)
            \<lparr>remote := [(''s1'', [''g'']), (''s2'', [''g'']), (''s3'', [''x''])],
             calls := [GetSlaveNamesInGroup ''g'',
                       SetGroupsForSlave (NameList [''s2'']) (OneName ''g''),
                       GetSlaveInfo ''s3'', RemoveGroupFromSlave ''s3'' ''g'']\<rparr>)
   \<and> Slave_in_group (farm_api accepting) ''s2'' ''g''
         ((initial_world example_farm)
            \<lparr>remote := [(''s1'', [''g'']), (''s2'', [''g'']), (''s3'', [''x''])],
             calls := [GetSlaveNamesInGroup ''g'',
                       SetGroupsForSlave (NameList [''s2'']) (OneName ''g''),
                       GetSlaveInfo ''s3'', RemoveGroupFromSlave ''s3'' ''g'']\<rparr>)
       = Returns True
   \<and> Slave_in_group (farm_api accepting) ''s3'' ''g''
         ((initial_world example_farm)
            \<lparr>remote := [(''s1'', [''g'']), (''s2'', [''g'']), (''s3'', [''x''])],
             calls := [GetSlaveNamesInGroup ''g'',
                       SetGroupsForSlave (NameList [''s2'']) (OneName ''g''),
                       GetSlaveInfo ''s3'', RemoveGroupFromSlave ''s3'' ''g'']\<rparr>)
       = Returns False"
proof -
  have low: "distinct [str_lower ''s1'', str_lower ''s2'', str_lower ''s3'']"
    "str_lower ''x'' \<noteq> str_lower ''g''"
    by code_simp+
  have ok: "farm_ok example_farm"
    using low by (simp add: farm_ok_def example_farm_def)
  have members: "farm_members example_farm ''g'' = [''s1'', ''s3'']"
    by (simp add: farm_members_def example_farm_def)
  have g2: "map_of example_farm ''s2'' = Some [''other'']"
    by (simp add: example_farm_def)
  have g3: "map_of example_farm ''s3'' = Some [''x'', ''g'']"
    by (simp add: example_farm_def)
  have ne: "''s2'' \<noteq> ''s1''" "''s2'' \<noteq> ''s3''"
    by simp_all
  have ord: "length (insertion_order xs) = length xs \<and> set (insertion_order xs) = set xs" for xs
    by (simp add: insertion_order_def)
  have f1: "farm_set_groups [''s2''] [''g''] example_farm
              = [(''s1'', [''g'']), (''s2'', [''g'']), (''s3'', [''x'', ''g''])]"
    by (simp add: farm_set_groups_def example_farm_def)
  have f2: "farm_remove_group ''s3'' ''g'' [(''s1'', [''g'']), (''s2'', [''g'']), (''s3'', [''x'', ''g''])]
              = [(''s1'', [''g'']), (''s2'', [''g'']), (''s3'', [''x''])]"
    by (simp add: farm_remove_group_def)
  note run = Group_set_slaves_bidirectional [OF ok members g2 g3 ne ord, of accepting]
  from run have res:
    "Group_set_slaves insertion_order (farm_api accepting)
         (Group_init (AStr ''g'') (initial_world example_farm))
         [AStr ''s1'', AStr ''s2''] (initial_world example_farm)
       = (Returns (), \<lparr>group_name = ''g'', group_slaves_cache = Cached [''s1'', ''s3'']\<rparr>,
          (initial_world example_farm)
            \<lparr>remote := [(''s1'', [''g'']), (''s2'', [''g'']), (''s3'', [''x''])],
             calls := [GetSlaveNamesInGroup ''g'',
                       SetGroupsForSlave (NameList [''s2'']) (OneName ''g''),
                       GetSlaveInfo ''s3'', RemoveGroupFromSlave ''s3'' ''g'']\<rparr>)"
    "Slave_groups_remove (farm_api accepting) (AItem \<lparr>cls = SlaveT, name = ''s3''\<rparr>)
         \<lparr>group_name = ''g'', group_slaves_cache = Cached [''s1'', ''s3'']\<rparr>
         ((initial_world example_farm)
            \<lparr>remote := [(''s1'', [''g'']), (''s2'', [''g'']), (''s3'', [''x'', ''g''])],
             calls := [GetSlaveNamesInGroup ''g'',
                       SetGroupsForSlave (NameList [''s2'']) (OneName ''g'')]\<rparr>)
       = (Returns (),
          \<lparr>slave_name = ''s3'', info_cell = Cached (Dict [(''Grps'', Leaf (PStr ''x''))]),
           settings_cell = NOT_SET\<rparr>,
          (initial_world example_farm)
            \<lparr>remote := [(''s1'', [''g'']), (''s2'', [''g'']), (''s3'', [''x''])],
             calls := [GetSlaveNamesInGroup ''g'',
                       SetGroupsForSlave (NameList [''s2'']) (OneName ''g''),
                       GetSlaveInfo ''s3'', RemoveGroupFromSlave ''s3'' ''g'']\<rparr>)"
    "Slave_in_group (farm_api accepting) ''s2'' ''g''
         ((initial_world example_farm)
            \<lparr>remote := [(''s1'', [''g'']), (''s2'', [''g'']), (''s3'', [''x''])],
             calls := [GetSlaveNamesInGroup ''g'',
                       SetGroupsForSlave (NameList [''s2'']) (OneName ''g''),
                       GetSlaveInfo ''s3'', RemoveGroupFromSlave ''s3'' ''g'']\<rparr>)
       = Returns True"
    "Slave_in_group (farm_api accepting) ''s3'' ''g''
         ((initial_world example_farm)
            \<lparr>remote := [(''s1'', [''g'']), (''s2'', [''g'']), (''s3'', [''x''])],
             calls := [GetSlaveNamesInGroup ''g'',
                       SetGroupsForSlave (NameList [''s2'']) (OneName ''g''),
                       GetSlaveInfo ''s3'', RemoveGroupFromSlave ''s3'' ''g'']\<rparr>)
       = Returns False"
    by (simp_all add: Let_def accepting_def f1 f2)
  from ord have ord': "\<forall>xs. length (insertion_order xs) = length xs
                            \<and> set (insertion_order xs) = set xs"
    by blast
  show ?thesis
    by (intro conjI) (rule ok members g2 g3 ne ord' res)+
qed

text \<open>
  The claim as stated fails when the service refuses the changes: the assignment
  returns as before, after the same four remote calls, and leaves \<open>s2\<close> outside the group
  and \<open>s3\<close> inside it.
\<close>

theorem Group_set_slaves_refused:
  "fst (Group_set_slaves insertion_order (farm_api refusing)
          (Group_init (AStr ''g'') (initial_world example_farm))
          [AStr ''s1'', AStr ''s2''] (initial_world example_farm)) = Returns ()
   \<and> calls (snd (snd (Group_set_slaves insertion_order (farm_api refusing)
                         (Group_init (AStr ''g'') (initial_world example_farm))
                         [AStr ''s1'', AStr ''s2''] (initial_world example_farm))))
       = [GetSlaveNamesInGroup ''g'', SetGroupsForSlave (NameList [''s2'']) (OneName ''g''),
          GetSlaveInfo ''s3'', RemoveGroupFromSlave ''s3'' ''g'']
   \<and> Slave_in_group (farm_api refusing) ''s2'' ''g''
         (snd (snd (Group_set_slaves insertion_order (farm_api refusing)
                      (Group_init (AStr ''g'') (initial_world example_farm))
                      [AStr ''s1'', AStr ''s2''] (initial_world example_farm)))) = Returns False
   \<and> Slave_in_group (farm_api refusing) ''s3'' ''g''
         (snd (snd (Group_set_slaves insertion_order (farm_api refusing)
                      (Group_init (AStr ''g'') (initial_world example_farm))
                      [AStr ''s1'', AStr ''s2''] (initial_world example_farm)))) = Returns True"
  by code_simp


end
